theory Spec2Isabelle
  imports Main
begin

section \<open>MicroPop: popup registry and visibility state machine\<close>

text \<open>
  The repository holds three editions of the one module \<^verbatim>\<open>MicroPop\<close>:
  \<^item> \<^verbatim>\<open>src/index.js\<close>, version 0.1.0 (the minimal edition);
  \<^item> \<^verbatim>\<open>src/unnamed/part_001\<close>, version 0.1.1 (checks its display element, warns);
  \<^item> \<^verbatim>\<open>src/unnamed/part_000\<close>, version 0.2.0 (roles, listeners, auto-discovery).

  The methods \<^verbatim>\<open>show\<close>, \<^verbatim>\<open>hide\<close>, \<^verbatim>\<open>toggle\<close> of the class and the helper
  \<^verbatim>\<open>_getTargetId\<close> are the same text in all three; the constructor, \<^verbatim>\<open>_init\<close>,
  \<^verbatim>\<open>initPopup\<close> and the warnings differ, and the model takes the edition as a parameter there.
\<close>

datatype version = V010 | V011 | V020

subsection \<open>The host document\<close>

text \<open>
  Elements and Popup objects are referred to by handles; two handles are the same object
  exactly when they are equal. A bound method (\<^verbatim>\<open>this.show.bind(this)\<close>) is identified by the
  Popup object it is bound to.
\<close>

type_synonym elem = nat

datatype handler = BoundShow nat | BoundHide nat | BoundToggle nat

text \<open>
  An element carries its attributes (the native id is the attribute \<^verbatim>\<open>id\<close>), its class
  list (an ordered set of tokens) and its event listeners. The class list is held apart
  from the attributes: the module reads and writes classes through \<^verbatim>\<open>classList\<close> only.
  \<open>isHTMLElement\<close> tells whether \<^verbatim>\<open>element instanceof HTMLElement\<close> holds: it does not for
  an SVG or MathML element, nor for an element of another window.
\<close>

record element =
  isHTMLElement :: bool
  attrs :: "string \<rightharpoonup> string"
  classList :: "string list"
  listeners :: "(string \<times> handler) list"

text \<open>The values that reach the module as a popup reference.\<close>

datatype jsval = JUndefined | JNull | JBool bool | JNum int | JStr string | JElem elem

fun truthy :: "jsval \<Rightarrow> bool" where
  "truthy JUndefined = False"
| "truthy JNull = False"
| "truthy (JBool b) = b"
| "truthy (JNum n) = (n \<noteq> 0)"
| "truthy (JStr x) = (x \<noteq> [])"
| "truthy (JElem e) = True"

text \<open>
  What is thrown: \<^verbatim>\<open>new Error(message)\<close> of the source, the \<^verbatim>\<open>TypeError\<close> of the language
  (a property read on \<^verbatim>\<open>null\<close> or \<^verbatim>\<open>undefined\<close>, a call of something that is no function),
  and the two exceptions of \<^verbatim>\<open>classList.add\<close> and \<^verbatim>\<open>classList.remove\<close>.
\<close>

datatype error = Error string | TypeError | SyntaxError | InvalidCharacterError

subsection \<open>The module's state\<close>

record micropop_options =
  openTrigger :: string
  identifierAttribute :: string
  libraryAttribute :: string
  debugMode :: bool
  openClass :: string

definition default_options :: micropop_options where
  "default_options =
     \<lparr>openTrigger = ''data-micropop-trigger'', identifierAttribute = ''data-micropop-id'',
      libraryAttribute = ''data-micropop'', debugMode = False, openClass = ''is-open''\<rparr>"

text \<open>
  A Popup object. Its fields are assigned in the constructor and never again, so the
  object is a value together with its identity \<open>ref\<close>.
\<close>

record Popup =
  ref :: nat
  triggers :: "elem list"
  popup :: elem
  options_openClass :: string
  options_role :: "string option"
  triggerConfigs :: "(elem \<times> string option) list"

text \<open>
  \<open>elems\<close> is the store of all elements, \<open>doc\<close> the elements attached to the document in
  tree order, \<open>popups\<close> the own properties of the registry object, \<open>allocated\<close> the number
  of Popup objects constructed so far, \<open>console\<close> the arguments of each \<^verbatim>\<open>console.warn\<close>.
\<close>

record state =
  elems :: "elem \<Rightarrow> element"
  doc :: "elem list"
  popups :: "string \<rightharpoonup> Popup"
  options :: micropop_options
  generatedIdCount :: nat
  allocated :: nat
  console :: "string list list"

subsection \<open>Document primitives\<close>

text \<open>
  The attribute primitives below take a name as it is written and never fail. That is
  what the DOM does for a lower-case name built like an identifier: \<^verbatim>\<open>setAttribute\<close>
  accepts it (any other name may be rejected with an \<^verbatim>\<open>InvalidCharacterError\<close>), case
  folding on HTML elements leaves it as it is, and \<^verbatim>\<open>[name]\<close> is a selector for it. All
  attribute names written in the source and all default options are of this kind, and
  the theorems that let a configured name vary assume it of that name.
\<close>

definition name_start :: "char \<Rightarrow> bool" where
  "name_start c = (c \<in> set ''abcdefghijklmnopqrstuvwxyz_'')"

definition name_char :: "char \<Rightarrow> bool" where
  "name_char c = (c \<in> set ''abcdefghijklmnopqrstuvwxyz0123456789-_'')"

definition simple_name :: "string \<Rightarrow> bool" where
  "simple_name n = (case n of [] \<Rightarrow> False | c # cs \<Rightarrow> name_start c \<and> list_all name_char cs)"

text \<open>
  A name that an option may hold for an attribute the module reads and writes: a simple
  name other than \<^verbatim>\<open>class\<close>, whose value the DOM ties to the class list.
\<close>

definition attribute_option :: "string \<Rightarrow> bool" where
  "attribute_option n = (simple_name n \<and> n \<noteq> ''class'')"

text \<open>\<^verbatim>\<open>getAttribute\<close> gives \<^verbatim>\<open>null\<close> (\<open>None\<close>) for a missing attribute.\<close>

definition getAttribute :: "state \<Rightarrow> elem \<Rightarrow> string \<Rightarrow> string option" where
  "getAttribute s e n = attrs (elems s e) n"

definition setAttribute :: "elem \<Rightarrow> string \<Rightarrow> string \<Rightarrow> state \<Rightarrow> state" where
  "setAttribute e n v s =
     s\<lparr>elems := (elems s)(e := (elems s e)\<lparr>attrs := (attrs (elems s e))(n \<mapsto> v)\<rparr>)\<rparr>"

text \<open>
  \<^verbatim>\<open>element.id\<close>: the value of the attribute \<^verbatim>\<open>id\<close>, the empty string without one. (A
  form that contains a control named \<^verbatim>\<open>id\<close> shadows this property by that control; such
  forms are not among the elements of the model.)
\<close>

definition element_id :: "state \<Rightarrow> elem \<Rightarrow> string" where
  "element_id s e = (case getAttribute s e ''id'' of None \<Rightarrow> [] | Some v \<Rightarrow> v)"

text \<open>\<^verbatim>\<open>document.getElementById\<close>: the first element of the document with that non-empty id.\<close>

definition getElementById :: "state \<Rightarrow> string \<Rightarrow> elem option" where
  "getElementById s x =
     (if x = [] then None else find (\<lambda>e. getAttribute s e ''id'' = Some x) (doc s))"

text \<open>
  \<^verbatim>\<open>document.querySelectorAll('[name]')\<close> for a simple name: the elements carrying the
  attribute, in order.
\<close>

definition querySelectorAll_attr :: "state \<Rightarrow> string \<Rightarrow> elem list" where
  "querySelectorAll_attr s n = filter (\<lambda>e. getAttribute s e n \<noteq> None) (doc s)"

definition ascii_whitespace :: "char \<Rightarrow> bool" where
  "ascii_whitespace c = (c \<in> set [CHR 0x09, CHR 0x0A, CHR 0x0C, CHR 0x0D, CHR 0x20])"

text \<open>
  \<^verbatim>\<open>classList.add(token)\<close> and \<^verbatim>\<open>classList.remove(token)\<close> throw a \<^verbatim>\<open>SyntaxError\<close> on the
  empty token and an \<^verbatim>\<open>InvalidCharacterError\<close> on a token with white space.
\<close>

definition token_error :: "string \<Rightarrow> error option" where
  "token_error t =
     (if t = [] then Some SyntaxError
      else if list_ex ascii_whitespace t then Some InvalidCharacterError
      else None)"

definition classList_add :: "elem \<Rightarrow> string \<Rightarrow> state \<Rightarrow> (error + unit) \<times> state" where
  "classList_add e t s =
     (case token_error t of
        Some err \<Rightarrow> (Inl err, s)
      | None \<Rightarrow>
          (Inr (),
           s\<lparr>elems := (elems s)(e := (elems s e)\<lparr>classList :=
                (if t \<in> set (classList (elems s e)) then classList (elems s e)
                 else classList (elems s e) @ [t])\<rparr>)\<rparr>))"

definition classList_remove :: "elem \<Rightarrow> string \<Rightarrow> state \<Rightarrow> (error + unit) \<times> state" where
  "classList_remove e t s =
     (case token_error t of
        Some err \<Rightarrow> (Inl err, s)
      | None \<Rightarrow>
          (Inr (),
           s\<lparr>elems := (elems s)(e := (elems s e)\<lparr>classList :=
                removeAll t (classList (elems s e))\<rparr>)\<rparr>))"

text \<open>
  \<^verbatim>\<open>addEventListener(type, callback)\<close>: a listener with the same type and callback is
  not added a second time.
\<close>

definition addEventListener :: "elem \<Rightarrow> string \<Rightarrow> handler \<Rightarrow> state \<Rightarrow> state" where
  "addEventListener e ty h s =
     s\<lparr>elems := (elems s)(e := (elems s e)\<lparr>listeners :=
          (if (ty, h) \<in> set (listeners (elems s e)) then listeners (elems s e)
           else listeners (elems s e) @ [(ty, h)])\<rparr>)\<rparr>"

definition console_warn :: "string list \<Rightarrow> state \<Rightarrow> state" where
  "console_warn args s = s\<lparr>console := console s @ [args]\<rparr>"

subsection \<open>The Popup class: \<^verbatim>\<open>show\<close>, \<^verbatim>\<open>hide\<close>, \<^verbatim>\<open>toggle\<close>\<close>

text \<open>
  A method returns \<open>Inr ()\<close> when it returns and \<open>Inl err\<close> when it throws, together with
  the state it leaves: a throw in the middle keeps the writes made before it.
  \<^verbatim>\<open>this.triggers[0]\<close> of an empty array is \<^verbatim>\<open>undefined\<close>, and \<^verbatim>\<open>setAttribute\<close> on it
  throws a \<^verbatim>\<open>TypeError\<close>.
\<close>

definition Popup_show :: "Popup \<Rightarrow> state \<Rightarrow> (error + unit) \<times> state" where
  "Popup_show p s =
     (if getAttribute s (popup p) ''aria-hidden'' = Some ''false'' then (Inr (), s)
      else
        let s1 = setAttribute (popup p) ''aria-hidden'' ''false'' s in
        (case triggers p of
           [] \<Rightarrow> (Inl TypeError, s1)
         | t # _ \<Rightarrow>
             classList_add (popup p) (options_openClass p)
               (setAttribute t ''aria-expanded'' ''true'' s1)))"

definition Popup_hide :: "Popup \<Rightarrow> state \<Rightarrow> (error + unit) \<times> state" where
  "Popup_hide p s =
     (if getAttribute s (popup p) ''aria-hidden'' = Some ''true'' then (Inr (), s)
      else
        let s1 = setAttribute (popup p) ''aria-hidden'' ''true'' s in
        (case triggers p of
           [] \<Rightarrow> (Inl TypeError, s1)
         | t # _ \<Rightarrow>
             classList_remove (popup p) (options_openClass p)
               (setAttribute t ''aria-expanded'' ''false'' s1)))"

text \<open>
  \<^verbatim>\<open>toggle(event)\<close> first calls \<^verbatim>\<open>event.preventDefault()\<close> when it is given an event; that
  touches the event object only, which is no part of the state.
\<close>

definition Popup_toggle :: "Popup \<Rightarrow> state \<Rightarrow> (error + unit) \<times> state" where
  "Popup_toggle p s =
     (if getAttribute s (popup p) ''aria-hidden'' = Some ''true'' then Popup_show p s
      else Popup_hide p s)"

subsection \<open>Identifier resolution: \<^verbatim>\<open>_getTargetId\<close>\<close>

fun string_of_digit :: "nat \<Rightarrow> string" where
  "string_of_digit n =
     (if n = 0 then ''0'' else if n = 1 then ''1'' else if n = 2 then ''2''
      else if n = 3 then ''3'' else if n = 4 then ''4'' else if n = 5 then ''5''
      else if n = 6 then ''6'' else if n = 7 then ''7'' else if n = 8 then ''8''
      else ''9'')"

text \<open>The decimal numeral of a number, as a template literal prints it.\<close>

fun string_of_nat :: "nat \<Rightarrow> string" where
  "string_of_nat n =
     (if n < 10 then string_of_digit n
      else string_of_nat (n div 10) @ string_of_digit (n mod 10))"

declare string_of_nat.simps [simp del]

text \<open>
  \<^verbatim>\<open>options.generateId\<close>: \<^verbatim>\<open>`micropop-${++_generatedIdCount}`\<close>. The counter is a natural
  number; a JavaScript number counts exactly up to \<open>2^53\<close>, beyond any page.
\<close>

definition generateId :: "state \<Rightarrow> string \<times> state" where
  "generateId s =
     (''micropop-'' @ string_of_nat (Suc (generatedIdCount s)),
      s\<lparr>generatedIdCount := Suc (generatedIdCount s)\<rparr>)"

text \<open>
  \<^verbatim>\<open>_getTargetId\<close> (a name cannot start with an underscore here). \<open>None\<close> is \<^verbatim>\<open>null\<close>.
  The test \<^verbatim>\<open>if (targetId)\<close> fails on \<^verbatim>\<open>null\<close> (no attribute) and on the empty string.
  An element that is no \<^verbatim>\<open>HTMLElement\<close> falls through to \<^verbatim>\<open>return null\<close>.
\<close>

definition getTargetId :: "jsval \<Rightarrow> state \<Rightarrow> string option \<times> state" where
  "getTargetId r s =
     (case r of
        JStr x \<Rightarrow> (Some x, s)
      | JElem e \<Rightarrow>
          if isHTMLElement (elems s e) then
            (case getAttribute s e (identifierAttribute (options s)) of
               Some a \<Rightarrow>
                 if a \<noteq> [] then (Some a, s)
                 else if element_id s e \<noteq> [] then (Some (element_id s e), s)
                 else (let (targetId, s1) = generateId s
                       in (Some targetId,
                           setAttribute e (identifierAttribute (options s1)) targetId s1))
             | None \<Rightarrow>
                 if element_id s e \<noteq> [] then (Some (element_id s e), s)
                 else (let (targetId, s1) = generateId s
                       in (Some targetId,
                           setAttribute e (identifierAttribute (options s1)) targetId s1)))
          else (None, s)
      | _ \<Rightarrow> (None, s))"

subsection \<open>The registry object\<close>

text \<open>
  The registry is \<^verbatim>\<open>const popups = {}\<close>, an ordinary object: a read \<^verbatim>\<open>popups[key]\<close> finds an
  own property, and otherwise what the object inherits from \<^verbatim>\<open>Object.prototype\<close>. The
  inherited values are functions (\<^verbatim>\<open>__proto__\<close> reads as the prototype object): all
  truthy, none with a property \<^verbatim>\<open>show\<close>, \<^verbatim>\<open>hide\<close>, \<^verbatim>\<open>toggle\<close> or \<^verbatim>\<open>popup\<close>.
  A key that is \<^verbatim>\<open>null\<close> is the property name \<^verbatim>\<open>"null"\<close>.
\<close>

definition Object_prototype_keys :: "string list" where
  "Object_prototype_keys =
     [''constructor'', ''__defineGetter__'', ''__defineSetter__'', ''hasOwnProperty'',
      ''__lookupGetter__'', ''__lookupSetter__'', ''isPrototypeOf'', ''propertyIsEnumerable'',
      ''toString'', ''valueOf'', ''__proto__'', ''toLocaleString'']"

datatype property = Undefined | Instance Popup | Inherited string

definition property_key :: "string option \<Rightarrow> string" where
  "property_key k = (case k of None \<Rightarrow> ''null'' | Some x \<Rightarrow> x)"

definition popups_get :: "state \<Rightarrow> string option \<Rightarrow> property" where
  "popups_get s k =
     (case popups s (property_key k) of
        Some p \<Rightarrow> Instance p
      | None \<Rightarrow>
          if property_key k \<in> set Object_prototype_keys then Inherited (property_key k)
          else Undefined)"

subsection \<open>The Popup constructor and \<^verbatim>\<open>_init\<close>\<close>

text \<open>
  The configuration object. \<open>TUndefined\<close> is a missing \<^verbatim>\<open>triggers\<close> (the default \<^verbatim>\<open>[]\<close>
  applies), \<open>TElem\<close> a single element passed in place of an array; \<open>None\<close> is a missing
  property (for \<^verbatim>\<open>role\<close> also \<^verbatim>\<open>null\<close>, its default).
\<close>

datatype triggers_arg = TUndefined | TArray "elem list" | TElem elem

record config =
  cfg_popup :: jsval
  cfg_triggers :: triggers_arg
  cfg_openClass :: "string option"
  cfg_role :: "string option"
  cfg_targetPopupId :: "string option"

text \<open>\<^verbatim>\<open>Array.isArray(triggers) ? triggers : [triggers]\<close>, after the default.\<close>

definition this_triggers :: "config \<Rightarrow> elem list" where
  "this_triggers c = (case cfg_triggers c of TUndefined \<Rightarrow> [] | TArray ts \<Rightarrow> ts | TElem t \<Rightarrow> [t])"

text \<open>\<^verbatim>\<open>typeof popup === 'string' ? document.getElementById(popup) : popup\<close>.\<close>

definition determine_popup :: "state \<Rightarrow> jsval \<Rightarrow> jsval" where
  "determine_popup s v =
     (case v of
        JStr x \<Rightarrow> (case getElementById s x of None \<Rightarrow> JNull | Some e \<Rightarrow> JElem e)
      | _ \<Rightarrow> v)"

definition default_openClass :: "config \<Rightarrow> string" where
  "default_openClass c = (case cfg_openClass c of None \<Rightarrow> ''is-open'' | Some x \<Rightarrow> x)"

text \<open>\<^verbatim>\<open>String.prototype.split(' ')\<close>: the pieces between single spaces, empty ones kept.\<close>

fun split_space :: "string \<Rightarrow> string list" where
  "split_space [] = [[]]"
| "split_space (c # cs) =
     (if c = CHR '' '' then [] # split_space cs
      else (case split_space cs of [] \<Rightarrow> [[c]] | w # ws \<Rightarrow> (c # w) # ws))"

text \<open>
  The loop of \<^verbatim>\<open>_init\<close> over \<^verbatim>\<open>this.triggerConfigs\<close> in version 0.2.0; \<open>r\<close> is the
  identity of the Popup under construction, \<open>e\<close> its display element.
\<close>

fun attach_listeners :: "nat \<Rightarrow> elem \<Rightarrow> (elem \<times> string option) list \<Rightarrow> state \<Rightarrow> state" where
  "attach_listeners r e [] s = s"
| "attach_listeners r e ((trigger, role) # tcs) s =
     attach_listeners r e tcs
       (if role = Some ''tooltip'' then
          addEventListener trigger ''blur'' (BoundHide r)
            (addEventListener trigger ''mouseleave'' (BoundHide r)
              (addEventListener trigger ''focus'' (BoundShow r)
                (addEventListener trigger ''mouseenter'' (BoundShow r)
                  (setAttribute e ''role'' ''tooltip'' s))))
        else if role = Some ''dialog'' then
          addEventListener trigger ''click'' (BoundToggle r)
            (setAttribute e ''role'' ''dialog'' s)
        else s)"

text \<open>
  \<^verbatim>\<open>_init\<close>. \<open>thisPopup\<close> is the value of \<^verbatim>\<open>this.popup\<close>; the first statement calls
  \<^verbatim>\<open>setAttribute\<close> on it, a \<^verbatim>\<open>TypeError\<close> unless it is an element. The result is that
  element.
\<close>

definition Popup_init ::
  "version \<Rightarrow> nat \<Rightarrow> jsval \<Rightarrow> (elem \<times> string option) list \<Rightarrow> state \<Rightarrow> (error + elem) \<times> state" where
  "Popup_init v r thisPopup tcs s =
     (case thisPopup of
        JElem e \<Rightarrow>
          (let s3 = setAttribute e ''aria-hidden'' ''true''
                      (setAttribute e ''aria-expanded'' ''false''
                        (setAttribute e ''aria-haspopup'' ''true'' s))
           in (Inr e, if v = V020 then attach_listeners r e tcs s3 else s3))
      | _ \<Rightarrow> (Inl TypeError, s))"

text \<open>
  The end of every constructor: \<^verbatim>\<open>this._init()\<close>, and the finished object. A constructor
  that throws leaves no object behind that anything refers to.
\<close>

definition finish_construction ::
  "version \<Rightarrow> elem list \<Rightarrow> jsval \<Rightarrow> string \<Rightarrow> string option \<Rightarrow> (elem \<times> string option) list
     \<Rightarrow> state \<Rightarrow> (error + Popup) \<times> state" where
  "finish_construction v ts thisPopup oc role tcs s =
     (case Popup_init v (allocated s) thisPopup tcs s of
        (Inl err, s1) \<Rightarrow> (Inl err, s1)
      | (Inr e, s1) \<Rightarrow>
          (Inr \<lparr>ref = allocated s, triggers = ts, popup = e, options_openClass = oc,
                options_role = role, triggerConfigs = tcs\<rparr>,
           s1\<lparr>allocated := Suc (allocated s)\<rparr>))"

text \<open>
  Version 0.1.0 (\<^verbatim>\<open>src/index.js\<close>). \<^verbatim>\<open>triggers.map\<close> is called on the argument itself,
  not on \<^verbatim>\<open>this.triggers\<close>: a single element has no \<^verbatim>\<open>map\<close>.
\<close>

definition Popup_constructor_V010 :: "config \<Rightarrow> state \<Rightarrow> (error + Popup) \<times> state" where
  "Popup_constructor_V010 c s =
     (let thisPopup = determine_popup s (cfg_popup c) in
      case cfg_triggers c of
        TElem t \<Rightarrow> (Inl TypeError, s)
      | _ \<Rightarrow>
          finish_construction V010 (this_triggers c) thisPopup (default_openClass c) None
            (map (\<lambda>t. (t, None)) (this_triggers c)) s)"

text \<open>Version 0.1.1 (\<^verbatim>\<open>part_001\<close>).\<close>

definition Popup_constructor_V011 :: "config \<Rightarrow> state \<Rightarrow> (error + Popup) \<times> state" where
  "Popup_constructor_V011 c s =
     (if \<not> truthy (cfg_popup c) then
        (Inl (Error ''[MicroPop] No popup was supplied to initialize the popup.''), s)
      else
        let thisPopup = determine_popup s (cfg_popup c) in
        if \<not> truthy thisPopup then
          (Inl (Error ''[MicroPop] Could not find the popup element id:''), s)
        else
          (case cfg_triggers c of
             TElem t \<Rightarrow> (Inl TypeError, s)
           | _ \<Rightarrow>
               finish_construction V011 (this_triggers c) thisPopup (default_openClass c) None
                 (map (\<lambda>t. (t, None)) (this_triggers c)) s))"

text \<open>
  \<^verbatim>\<open>a || b\<close> where \<open>a\<close> is a string, \<^verbatim>\<open>null\<close> or \<^verbatim>\<open>undefined\<close>: \<open>a\<close> when it is a
  non-empty string (as in \<^verbatim>\<open>role || derivedRole\<close>). With \<open>b = None\<close> it tells whether
  \<open>a\<close> is truthy.
\<close>

definition or_else :: "string option \<Rightarrow> string option \<Rightarrow> string option" where
  "or_else a b =
     (case a of
        None \<Rightarrow> b
      | Some x \<Rightarrow> if x = [] then b else Some x)"

text \<open>\<^verbatim>\<open>split(' ')[0]\<close>: the split has at least one piece.\<close>

definition first_piece :: "string \<Rightarrow> string" where
  "first_piece a = (case split_space a of [] \<Rightarrow> [] | w # _ \<Rightarrow> w)"

text \<open>
  Version 0.2.0 (\<^verbatim>\<open>part_000\<close>): without a popup, the display element and the role are
  derived from the first trigger. The result is \<^verbatim>\<open>this.popup\<close> and \<^verbatim>\<open>derivedRole\<close>.
\<close>

definition derive_from_trigger ::
  "config \<Rightarrow> state \<Rightarrow> error + (jsval \<times> string option)" where
  "derive_from_trigger c s =
     (case this_triggers c of
        [] \<Rightarrow> Inl (Error ''[MicroPop] No popup or trigger were supplied to initialize the popup.'')
      | t0 # _ \<Rightarrow>
          (case (case or_else (cfg_role c) None of
                   Some role \<Rightarrow> Inr role
                 | None \<Rightarrow>
                     (case getAttribute s t0 (openTrigger (options s)) of
                        None \<Rightarrow> Inl TypeError
                      | Some a \<Rightarrow> Inr (first_piece a))) of
             Inl err \<Rightarrow> Inl err
           | Inr derivedRole \<Rightarrow>
               if derivedRole = [] then
                 Inl (Error ''[MicroPop] No role could be derived from the trigger element.'')
               else
                 (case getAttribute s t0 (libraryAttribute (options s) @ ''-'' @ derivedRole) of
                    None \<Rightarrow>
                      Inl (Error ''[MicroPop] No popup id could be derived from the trigger element.'')
                  | Some idFromTrigger \<Rightarrow>
                      if idFromTrigger = [] then
                        Inl (Error ''[MicroPop] No popup id could be derived from the trigger element.'')
                      else
                        Inr (case getElementById s idFromTrigger of
                               None \<Rightarrow> JNull | Some e \<Rightarrow> JElem e,
                             Some derivedRole))))"

definition Popup_constructor_V020 :: "config \<Rightarrow> state \<Rightarrow> (error + Popup) \<times> state" where
  "Popup_constructor_V020 c s =
     (case (if \<not> truthy (cfg_popup c) then derive_from_trigger c s
            else Inr (determine_popup s (cfg_popup c), None)) of
        Inl err \<Rightarrow> (Inl err, s)
      | Inr (thisPopup, derivedRole) \<Rightarrow>
          finish_construction V020 (this_triggers c) thisPopup (default_openClass c) (cfg_role c)
            (map (\<lambda>t. (t, or_else (cfg_role c) derivedRole)) (this_triggers c)) s)"

definition Popup_constructor :: "version \<Rightarrow> config \<Rightarrow> state \<Rightarrow> (error + Popup) \<times> state" where
  "Popup_constructor v c s =
     (case v of
        V010 \<Rightarrow> Popup_constructor_V010 c s
      | V011 \<Rightarrow> Popup_constructor_V011 c s
      | V020 \<Rightarrow> Popup_constructor_V020 c s)"

subsection \<open>\<^verbatim>\<open>initPopup\<close>\<close>

text \<open>
  \<^verbatim>\<open>Object.assign({ openClass: options.openClass }, config)\<close>, then the target identifier:
  \<^verbatim>\<open>targetPopupId\<close> of the configuration when truthy, else \<^verbatim>\<open>_getTargetId(popup)\<close>.
\<close>

definition popupConfigs_of :: "config \<Rightarrow> state \<Rightarrow> config" where
  "popupConfigs_of c s =
     c\<lparr>cfg_openClass :=
         (case cfg_openClass c of None \<Rightarrow> Some (openClass (options s)) | Some x \<Rightarrow> Some x)\<rparr>"

definition targetId_of :: "config \<Rightarrow> state \<Rightarrow> string option \<times> state" where
  "targetId_of c s =
     (case or_else (cfg_targetPopupId c) None of
        Some x \<Rightarrow> (Some x, s)
      | None \<Rightarrow> getTargetId (cfg_popup c) s)"

text \<open>
  What \<^verbatim>\<open>initPopup\<close> returns when \<^verbatim>\<open>popups[targetId]\<close> is truthy: nothing in version
  0.1.0 (\<^verbatim>\<open>if (popups[targetId]) return\<close>), the value found in the later ones, after
  a warning in debug mode.
\<close>

definition already_initialized ::
  "version \<Rightarrow> string option \<Rightarrow> property \<Rightarrow> state \<Rightarrow> (error + property) \<times> state" where
  "already_initialized v targetId found s =
     (if v = V010 then (Inr Undefined, s)
      else
        (Inr found,
         if debugMode (options s)
         then console_warn [''[MicroPop] Popup is already initialized:'', property_key targetId] s
         else s))"

definition initPopup :: "version \<Rightarrow> config \<Rightarrow> state \<Rightarrow> (error + property) \<times> state" where
  "initPopup v c s =
     (let popupConfigs = popupConfigs_of c s;
          (targetId, s1) = targetId_of popupConfigs s
      in case popups_get s1 targetId of
           Instance p \<Rightarrow> already_initialized v targetId (Instance p) s1
         | Inherited k \<Rightarrow> already_initialized v targetId (Inherited k) s1
         | Undefined \<Rightarrow>
             (case Popup_constructor v popupConfigs s1 of
                (Inl err, s2) \<Rightarrow> (Inl err, s2)
              | (Inr p, s2) \<Rightarrow>
                  (Inr (Instance p),
                   setAttribute (popup p) (identifierAttribute (options s2)) (property_key targetId)
                     (s2\<lparr>popups := (popups s2)(property_key targetId \<mapsto> p)\<rparr>))))"

subsection \<open>The registry operations \<^verbatim>\<open>show\<close>, \<^verbatim>\<open>hide\<close>, \<^verbatim>\<open>toggle\<close>\<close>

text \<open>The \<^verbatim>\<open>else\<close> branch: absent in version 0.1.0, a warning in the later ones.\<close>

definition not_initialized :: "version \<Rightarrow> string \<Rightarrow> state \<Rightarrow> state" where
  "not_initialized v name s =
     (case v of
        V010 \<Rightarrow> s
      | V011 \<Rightarrow> console_warn [''[MicroPop]: The popup passed in '' @ name @ ''() is not initialized''] s
      | V020 \<Rightarrow> console_warn [''[MicroPop] The popup passed in '' @ name @ ''() is not initialized''] s)"

text \<open>
  \<^verbatim>\<open>popups[targetId].show()\<close> on an inherited value calls \<^verbatim>\<open>undefined\<close>: a \<^verbatim>\<open>TypeError\<close>.
  (\<open>show\<close>, \<open>hide\<close> are words of the proof language, hence the suffix.)
\<close>

definition show_ref :: "version \<Rightarrow> jsval \<Rightarrow> state \<Rightarrow> (error + unit) \<times> state" where
  "show_ref v r s =
     (let (targetId, s1) = getTargetId r s
      in case popups_get s1 targetId of
           Instance p \<Rightarrow> Popup_show p s1
         | Inherited k \<Rightarrow> (Inl TypeError, s1)
         | Undefined \<Rightarrow> (Inr (), not_initialized v ''show'' s1))"

definition hide_ref :: "version \<Rightarrow> jsval \<Rightarrow> state \<Rightarrow> (error + unit) \<times> state" where
  "hide_ref v r s =
     (let (targetId, s1) = getTargetId r s
      in case popups_get s1 targetId of
           Instance p \<Rightarrow> Popup_hide p s1
         | Inherited k \<Rightarrow> (Inl TypeError, s1)
         | Undefined \<Rightarrow> (Inr (), not_initialized v ''hide'' s1))"

definition toggle_ref :: "version \<Rightarrow> jsval \<Rightarrow> state \<Rightarrow> (error + unit) \<times> state" where
  "toggle_ref v r s =
     (let (targetId, s1) = getTargetId r s
      in case popups_get s1 targetId of
           Instance p \<Rightarrow> Popup_toggle p s1
         | Inherited k \<Rightarrow> (Inl TypeError, s1)
         | Undefined \<Rightarrow> (Inr (), not_initialized v ''toggle'' s1))"

subsection \<open>Auto-discovery: \<^verbatim>\<open>init\<close> (version 0.2.0)\<close>

text \<open>
  The argument of \<^verbatim>\<open>init\<close>: each property is present or not; \<^verbatim>\<open>Object.assign\<close> copies the
  present ones over the options. (\<^verbatim>\<open>generateId\<close> is left as the module defines it.)
\<close>

record init_config =
  new_openTrigger :: "string option"
  new_identifier :: "string option"
  new_libraryAttribute :: "string option"
  new_debugMode :: "bool option"
  new_openClass :: "string option"

definition no_config :: init_config where
  "no_config = \<lparr>new_openTrigger = None, new_identifier = None, new_libraryAttribute = None,
                 new_debugMode = None, new_openClass = None\<rparr>"

definition assign_options :: "micropop_options \<Rightarrow> init_config \<Rightarrow> micropop_options" where
  "assign_options opts c =
     \<lparr>openTrigger = (case new_openTrigger c of None \<Rightarrow> openTrigger opts | Some x \<Rightarrow> x),
      identifierAttribute = (case new_identifier c of None \<Rightarrow> identifierAttribute opts | Some x \<Rightarrow> x),
      libraryAttribute = (case new_libraryAttribute c of None \<Rightarrow> libraryAttribute opts | Some x \<Rightarrow> x),
      debugMode = (case new_debugMode c of None \<Rightarrow> debugMode opts | Some x \<Rightarrow> x),
      openClass = (case new_openClass c of None \<Rightarrow> openClass opts | Some x \<Rightarrow> x)\<rparr>"

text \<open>The inner loop \<^verbatim>\<open>attributesToCheck.forEach\<close>; a throw ends both loops.\<close>

fun init_roles :: "elem \<Rightarrow> string list \<Rightarrow> state \<Rightarrow> (error + unit) \<times> state" where
  "init_roles trigger [] s = (Inr (), s)"
| "init_roles trigger (attr # rest) s =
     (case or_else (getAttribute s trigger (libraryAttribute (options s) @ ''-'' @ attr)) None of
        None \<Rightarrow> init_roles trigger rest s
      | Some targetId \<Rightarrow>
          (case initPopup V020
                  \<lparr>cfg_popup = JStr targetId, cfg_triggers = TElem trigger, cfg_openClass = None,
                   cfg_role = Some attr, cfg_targetPopupId = None\<rparr> s of
             (Inl err, s1) \<Rightarrow> (Inl err, s1)
           | (Inr _, s1) \<Rightarrow> init_roles trigger rest s1))"

text \<open>The outer loop \<^verbatim>\<open>triggers.forEach\<close>.\<close>

fun init_triggers :: "elem list \<Rightarrow> state \<Rightarrow> (error + unit) \<times> state" where
  "init_triggers [] s = (Inr (), s)"
| "init_triggers (trigger # rest) s =
     (case getAttribute s trigger (openTrigger (options s)) of
        None \<Rightarrow> (Inl TypeError, s)
      | Some a \<Rightarrow>
          (case init_roles trigger (split_space a) s of
             (Inl err, s1) \<Rightarrow> (Inl err, s1)
           | (Inr _, s1) \<Rightarrow> init_triggers rest s1))"

definition init :: "init_config \<Rightarrow> state \<Rightarrow> (error + unit) \<times> state" where
  "init c s =
     (let s1 = s\<lparr>options := assign_options (options s) c\<rparr>
      in init_triggers (querySelectorAll_attr s1 (openTrigger (options s1))) s1)"

subsection \<open>Observations\<close>

text \<open>\<^verbatim>\<open>classList.contains(token)\<close>.\<close>

definition classList_contains :: "state \<Rightarrow> elem \<Rightarrow> string \<Rightarrow> bool" where
  "classList_contains s e t = (t \<in> set (classList (elems s e)))"

subsection \<open>The two encodings of visibility\<close>

definition aria_hidden :: "Popup \<Rightarrow> state \<Rightarrow> bool" where
  "aria_hidden p s = (getAttribute s (popup p) ''aria-hidden'' = Some ''true'')"

definition has_open_class :: "Popup \<Rightarrow> state \<Rightarrow> bool" where
  "has_open_class p s = classList_contains s (popup p) (options_openClass p)"

subsection \<open>Sequences of calls on one Popup\<close>

datatype call = Show | Hide | Toggle

fun call_method :: "Popup \<Rightarrow> call \<Rightarrow> state \<Rightarrow> (error + unit) \<times> state" where
  "call_method p Show s = Popup_show p s"
| "call_method p Hide s = Popup_hide p s"
| "call_method p Toggle s = Popup_toggle p s"

text \<open>Each call runs on the state the call before it has left.\<close>

fun calls :: "Popup \<Rightarrow> call list \<Rightarrow> state \<Rightarrow> state" where
  "calls p [] s = s"
| "calls p (c # cs) s = calls p cs (snd (call_method p c s))"

subsection \<open>Concrete documents\<close>

text \<open>An HTML element with the listed attributes and classes, and no listener.\<close>

definition element_with :: "(string \<times> string) list \<Rightarrow> string list \<Rightarrow> element" where
  "element_with as cs =
     \<lparr>isHTMLElement = True, attrs = map_of as, classList = cs, listeners = []\<rparr>"

text \<open>The same as an SVG element, which is no \<^verbatim>\<open>HTMLElement\<close>.\<close>

definition svg_element_with :: "(string \<times> string) list \<Rightarrow> string list \<Rightarrow> element" where
  "svg_element_with as cs =
     \<lparr>isHTMLElement = False, attrs = map_of as, classList = cs, listeners = []\<rparr>"

text \<open>
  The module as loaded (empty registry, default options, counter at zero) on a document
  of the listed elements.
\<close>

definition page :: "(elem \<times> element) list \<Rightarrow> state" where
  "page es =
     \<lparr>elems = (\<lambda>e. case map_of es e of None \<Rightarrow> element_with [] [] | Some x \<Rightarrow> x),
      doc = map fst es, popups = Map.empty, options = default_options,
      generatedIdCount = 0, allocated = 0, console = []\<rparr>"

text \<open>The configuration \<^verbatim>\<open>{ popup: x, triggers: ts }\<close>.\<close>

definition popup_config :: "jsval \<Rightarrow> elem list \<Rightarrow> config" where
  "popup_config x ts =
     \<lparr>cfg_popup = x, cfg_triggers = TArray ts, cfg_openClass = None, cfg_role = None,
      cfg_targetPopupId = None\<rparr>"

text \<open>A document whose element \<^verbatim>\<open><div id="tip1" class="is-open">\<close> is already open.\<close>

definition open_page :: state where
  "open_page = page [(0, element_with [(''id'', ''tip1'')] [''is-open'']),
                     (1, element_with [] [])]"

text \<open>A document whose element \<^verbatim>\<open><div id="tip1">\<close> has no class, and one more element.\<close>

definition closed_page :: state where
  "closed_page = page [(0, element_with [(''id'', ''tip1'')] []),
                       (1, element_with [] [])]"

text \<open>
  The Popup that \<^verbatim>\<open>new Popup({ popup: x, triggers: ts })\<close> builds as the first object when
  \<open>x\<close> is element 0 or its id.
\<close>

definition tip_popup :: "elem list \<Rightarrow> Popup" where
  "tip_popup ts =
     \<lparr>ref = 0, triggers = ts, popup = 0, options_openClass = ''is-open'',
      options_role = None, triggerConfigs = map (\<lambda>t. (t, None)) ts\<rparr>"

text \<open>A document with \<^verbatim>\<open><div id="tip1">\<close>, a \<^verbatim>\<open><button>\<close> and an \<^verbatim>\<open><svg id="icon">\<close>.\<close>

definition svg_page :: state where
  "svg_page = page [(0, element_with [(''id'', ''tip1'')] []),
                    (1, element_with [] []),
                    (2, svg_element_with [(''id'', ''icon'')] [])]"

text \<open>
  A document whose element 0 is \<^verbatim>\<open><div data-micropop-id="" id="tip1">\<close>: the identifier
  attribute is present and empty.
\<close>

definition empty_identifier_page :: state where
  "empty_identifier_page =
     page [(0, element_with [(''data-micropop-id'', []), (''id'', ''tip1'')] []),
           (1, element_with [] [])]"

text \<open>
  A document whose author has given the id \<^verbatim>\<open>micropop-1\<close> to a popup:
  \<^verbatim>\<open><div id="micropop-1">\<close> (element 0), its trigger (element 1) and one more element
  without any attribute (element 2).
\<close>

definition clash_page :: state where
  "clash_page = page [(0, element_with [(''id'', ''micropop-1'')] []),
                      (1, element_with [] []),
                      (2, element_with [] [])]"

text \<open>
  The state after \<^verbatim>\<open>MicroPop.initPopup({ popup: 'micropop-1', triggers: [t] })\<close> on that
  document, in version 0.2.0.
\<close>

definition clash_state :: state where
  "clash_state = snd (initPopup V020 (popup_config (JStr ''micropop-1'') [1]) clash_page)"

text \<open>
  The state after \<^verbatim>\<open>MicroPop.initPopup({ popup: 'tip1', triggers: [t] })\<close> on the document
  \<^verbatim>\<open><div id="tip1">\<close>, \<^verbatim>\<open><button>\<close>, in each version.
\<close>

definition registered_state :: "version \<Rightarrow> state" where
  "registered_state v = snd (initPopup v (popup_config (JStr ''tip1'') [1]) closed_page)"

text \<open>
  A document for auto-discovery: the trigger
  \<^verbatim>\<open><button data-micropop-trigger="tooltip dialog" data-micropop-tooltip="tip1" data-micropop-dialog="dlg1">\<close>
  (element 0) and its two targets \<^verbatim>\<open><div id="tip1">\<close> (element 1), \<^verbatim>\<open><div id="dlg1">\<close>
  (element 2).
\<close>

definition discovery_page :: state where
  "discovery_page =
     page [(0, element_with [(''data-micropop-trigger'', ''tooltip dialog''),
                             (''data-micropop-tooltip'', ''tip1''),
                             (''data-micropop-dialog'', ''dlg1'')] []),
           (1, element_with [(''id'', ''tip1'')] []),
           (2, element_with [(''id'', ''dlg1'')] [])]"

text \<open>The same trigger in a document without its two targets.\<close>

definition trigger_only_page :: state where
  "trigger_only_page =
     page [(0, element_with [(''data-micropop-trigger'', ''tooltip dialog''),
                             (''data-micropop-tooltip'', ''tip1''),
                             (''data-micropop-dialog'', ''dlg1'')] [])]"

section \<open>Properties\<close>

subsection \<open>Reading after writing\<close>

lemma getAttribute_setAttribute [simp]:
  "getAttribute (setAttribute e n v s) e' n' =
     (if e' = e \<and> n' = n then Some v else getAttribute s e' n')"
  by (simp add: getAttribute_def setAttribute_def)

lemma getAttribute_classList_add [simp]:
  "getAttribute (snd (classList_add e t s)) e' n = getAttribute s e' n"
  by (simp add: getAttribute_def classList_add_def split: option.split)

lemma getAttribute_classList_remove [simp]:
  "getAttribute (snd (classList_remove e t s)) e' n = getAttribute s e' n"
  by (simp add: getAttribute_def classList_remove_def split: option.split)

subsection \<open>Idempotence of \<^verbatim>\<open>show\<close> and \<^verbatim>\<open>hide\<close>\<close>

lemma aria_hidden_after_show:
  "getAttribute (snd (Popup_show p s)) (popup p) ''aria-hidden'' = Some ''false''"
  by (simp add: Popup_show_def Let_def split: list.split)

lemma aria_hidden_after_hide:
  "getAttribute (snd (Popup_hide p s)) (popup p) ''aria-hidden'' = Some ''true''"
  by (simp add: Popup_hide_def Let_def split: list.split)

lemma show_when_visible:
  "getAttribute s (popup p) ''aria-hidden'' = Some ''false'' \<Longrightarrow> Popup_show p s = (Inr (), s)"
  by (simp add: Popup_show_def)

lemma hide_when_hidden:
  "getAttribute s (popup p) ''aria-hidden'' = Some ''true'' \<Longrightarrow> Popup_hide p s = (Inr (), s)"
  by (simp add: Popup_hide_def)

text \<open>
  Claim C3. For every Popup and every state of the document, a second \<^verbatim>\<open>show()\<close> right
  after a first one returns without changing anything, so the state after two calls
  (and with it \<^verbatim>\<open>aria-hidden\<close>, \<^verbatim>\<open>aria-expanded\<close> of the first trigger and the open
  class) is the state after one; likewise for \<^verbatim>\<open>hide()\<close>. This holds also where the
  first call throws: it has written \<^verbatim>\<open>aria-hidden\<close> before.
\<close>

theorem show_hide_idempotent:
  "Popup_show p (snd (Popup_show p s)) = (Inr (), snd (Popup_show p s)) \<and>
   Popup_hide p (snd (Popup_hide p s)) = (Inr (), snd (Popup_hide p s))"
  by (simp add: show_when_visible hide_when_hidden aria_hidden_after_show aria_hidden_after_hide)

subsection \<open>Construction\<close>

lemma classList_setAttribute [simp]:
  "classList (elems (setAttribute e n v s) e') = classList (elems s e')"
  by (simp add: setAttribute_def)

lemma classList_addEventListener [simp]:
  "classList (elems (addEventListener e ty h s) e') = classList (elems s e')"
  by (simp add: addEventListener_def)

lemma getAttribute_addEventListener [simp]:
  "getAttribute (addEventListener e ty h s) e' n = getAttribute s e' n"
  by (simp add: getAttribute_def addEventListener_def)

lemma classList_attach_listeners [simp]:
  "classList (elems (attach_listeners r e tcs s) e') = classList (elems s e')"
  by (induction r e tcs s rule: attach_listeners.induct) simp_all

lemma getAttribute_attach_listeners:
  "n \<noteq> ''role'' \<Longrightarrow> getAttribute (attach_listeners r e tcs s) e' n = getAttribute s e' n"
  by (induction r e tcs s rule: attach_listeners.induct) simp_all

lemma getAttribute_allocated [simp]:
  "getAttribute (s\<lparr>allocated := k\<rparr>) e n = getAttribute s e n"
  by (simp add: getAttribute_def)

lemma Popup_init_result:
  assumes "Popup_init v r thisPopup tcs s = (Inr e, s')"
  shows "thisPopup = JElem e \<and>
         getAttribute s' e ''aria-hidden'' = Some ''true'' \<and>
         getAttribute s' e ''aria-haspopup'' = Some ''true'' \<and>
         getAttribute s' e ''aria-expanded'' = Some ''false'' \<and>
         (\<forall>e'. classList (elems s' e') = classList (elems s e'))"
  using assms
  by (auto simp: Popup_init_def Let_def getAttribute_attach_listeners split: jsval.splits if_splits)

lemma finish_construction_result:
  assumes "finish_construction v ts thisPopup oc role tcs s = (Inr p, s')"
  shows "thisPopup = JElem (popup p) \<and> triggers p = ts \<and> options_openClass p = oc \<and>
         options_role p = role \<and> triggerConfigs p = tcs \<and> ref p = allocated s \<and>
         getAttribute s' (popup p) ''aria-hidden'' = Some ''true'' \<and>
         getAttribute s' (popup p) ''aria-haspopup'' = Some ''true'' \<and>
         getAttribute s' (popup p) ''aria-expanded'' = Some ''false'' \<and>
         (\<forall>e'. classList (elems s' e') = classList (elems s e'))"
proof -
  from assms obtain e s1 where i: "Popup_init v (allocated s) thisPopup tcs s = (Inr e, s1)"
    and p: "p = \<lparr>ref = allocated s, triggers = ts, popup = e, options_openClass = oc,
                options_role = role, triggerConfigs = tcs\<rparr>"
    and s': "s' = s1\<lparr>allocated := Suc (allocated s)\<rparr>"
    by (auto simp: finish_construction_def split: prod.splits sum.splits)
  from Popup_init_result [OF i] show ?thesis by (simp add: p s')
qed

lemma constructor_finishes:
  assumes "Popup_constructor v c s = (Inr p, s')"
  shows "\<exists>thisPopup role tcs.
           finish_construction v (this_triggers c) thisPopup (default_openClass c) role tcs s = (Inr p, s')"
  using assms
  by (auto simp: Popup_constructor_def Popup_constructor_V010_def Popup_constructor_V011_def
        Popup_constructor_V020_def Let_def
      split: version.splits triggers_arg.splits if_splits sum.splits prod.splits)

lemma constructor_result:
  assumes "Popup_constructor v c s = (Inr p, s')"
  shows "triggers p = this_triggers c \<and> options_openClass p = default_openClass c \<and>
         ref p = allocated s \<and>
         getAttribute s' (popup p) ''aria-hidden'' = Some ''true'' \<and>
         getAttribute s' (popup p) ''aria-haspopup'' = Some ''true'' \<and>
         getAttribute s' (popup p) ''aria-expanded'' = Some ''false'' \<and>
         (\<forall>e'. classList (elems s' e') = classList (elems s e'))"
proof -
  from constructor_finishes [OF assms] obtain thisPopup role tcs where
    "finish_construction v (this_triggers c) thisPopup (default_openClass c) role tcs s = (Inr p, s')"
    by blast
  from finish_construction_result [OF this] show ?thesis by simp
qed

lemmas dom_defs = getAttribute_def setAttribute_def element_id_def getElementById_def
  querySelectorAll_attr_def classList_add_def classList_remove_def token_error_def
  ascii_whitespace_def addEventListener_def console_warn_def classList_contains_def

lemmas popup_defs = Popup_show_def Popup_hide_def Popup_toggle_def Popup_init_def
  finish_construction_def Popup_constructor_def Popup_constructor_V010_def
  Popup_constructor_V011_def Popup_constructor_V020_def derive_from_trigger_def
  this_triggers_def determine_popup_def default_openClass_def or_else_def first_piece_def

lemmas example_defs = element_with_def page_def popup_config_def default_options_def
  tip_popup_def

text \<open>
  Claim C5, as amended. Immediately after a successful construction, in each of the three
  versions, the display element has \<^verbatim>\<open>aria-hidden="true"\<close>, \<^verbatim>\<open>aria-haspopup="true"\<close> and
  \<^verbatim>\<open>aria-expanded="false"\<close>, whatever it carried before; construction does not touch its
  class list, so it carries the open class afterwards exactly when it carried it before.
\<close>

theorem construction_sets_aria:
  assumes "Popup_constructor v c s = (Inr p, s')"
  shows "getAttribute s' (popup p) ''aria-hidden'' = Some ''true'' \<and>
         getAttribute s' (popup p) ''aria-haspopup'' = Some ''true'' \<and>
         getAttribute s' (popup p) ''aria-expanded'' = Some ''false'' \<and>
         classList_contains s' (popup p) (options_openClass p) =
           classList_contains s (popup p) (options_openClass p)"
  using constructor_result [OF assms] by (simp add: classList_contains_def)

lemma open_page_constructed:
  "fst (Popup_constructor v (popup_config (JStr ''tip1'') [1]) open_page) =
     Inr (tip_popup [1])"
  by (cases v) (simp_all add: open_page_def dom_defs popup_defs example_defs)

lemma open_page_constructed_state:
  "Popup_constructor v (popup_config (JStr ''tip1'') [1]) open_page =
     (Inr (tip_popup [1]),
      snd (Popup_constructor v (popup_config (JStr ''tip1'') [1]) open_page))"
  using open_page_constructed [of v] by (simp add: prod_eq_iff)

text \<open>
  Witness for C5 as amended: version 0.2.0 on \<^verbatim>\<open><div id="tip1" class="is-open">\<close> with one
  trigger.
\<close>

theorem construction_sets_aria_witness:
  "getAttribute (snd (Popup_constructor V020 (popup_config (JStr ''tip1'') [1]) open_page))
     0 ''aria-hidden'' = Some ''true'' \<and>
   getAttribute (snd (Popup_constructor V020 (popup_config (JStr ''tip1'') [1]) open_page))
     0 ''aria-haspopup'' = Some ''true'' \<and>
   getAttribute (snd (Popup_constructor V020 (popup_config (JStr ''tip1'') [1]) open_page))
     0 ''aria-expanded'' = Some ''false'' \<and>
   classList_contains (snd (Popup_constructor V020 (popup_config (JStr ''tip1'') [1]) open_page))
     0 ''is-open'' = classList_contains open_page 0 ''is-open''"
  using construction_sets_aria [OF open_page_constructed_state [of V020]]
  by (simp add: tip_popup_def)

text \<open>
  Counterexample to C5 as stated: the display element \<^verbatim>\<open><div id="tip1" class="is-open">\<close>
  still carries the open class \<^verbatim>\<open>is-open\<close> after \<^verbatim>\<open>new Popup({ popup: 'tip1', triggers: [t] })\<close>,
  in every version.
\<close>

theorem construction_keeps_open_class:
  "fst (Popup_constructor V010 (popup_config (JStr ''tip1'') [1]) open_page) =
     Inr (tip_popup [1]) \<and>
   classList_contains (snd (Popup_constructor V010 (popup_config (JStr ''tip1'') [1]) open_page))
     0 ''is-open'' \<and>
   classList_contains (snd (Popup_constructor V011 (popup_config (JStr ''tip1'') [1]) open_page))
     0 ''is-open'' \<and>
   classList_contains (snd (Popup_constructor V020 (popup_config (JStr ''tip1'') [1]) open_page))
     0 ''is-open''"
  by (simp add: open_page_def dom_defs popup_defs example_defs)

subsection \<open>The visibility state machine\<close>

lemma classList_contains_setAttribute [simp]:
  "classList_contains (setAttribute e n v s) e' t = classList_contains s e' t"
  by (simp add: classList_contains_def)

lemma classList_add_ok:
  "token_error t = None \<Longrightarrow> fst (classList_add e t s) = Inr () \<and>
     classList_contains (snd (classList_add e t s)) e t"
  by (simp add: classList_add_def classList_contains_def)

lemma classList_remove_ok:
  "token_error t = None \<Longrightarrow> fst (classList_remove e t s) = Inr () \<and>
     \<not> classList_contains (snd (classList_remove e t s)) e t"
  by (simp add: classList_remove_def classList_contains_def)

lemma show_opens:
  assumes "triggers p \<noteq> []" and "token_error (options_openClass p) = None"
    and "getAttribute s (popup p) ''aria-hidden'' \<noteq> Some ''false''"
  shows "fst (Popup_show p s) = Inr () \<and> \<not> aria_hidden p (snd (Popup_show p s)) \<and>
         has_open_class p (snd (Popup_show p s))"
  using assms
  by (cases "triggers p")
     (simp_all add: Popup_show_def Let_def aria_hidden_def has_open_class_def classList_add_ok)

lemma hide_closes:
  assumes "triggers p \<noteq> []" and "token_error (options_openClass p) = None"
    and "getAttribute s (popup p) ''aria-hidden'' \<noteq> Some ''true''"
  shows "fst (Popup_hide p s) = Inr () \<and> aria_hidden p (snd (Popup_hide p s)) \<and>
         \<not> has_open_class p (snd (Popup_hide p s))"
  using assms
  by (cases "triggers p")
     (simp_all add: Popup_hide_def Let_def aria_hidden_def has_open_class_def classList_remove_ok)

text \<open>
  The invariant of the calls: \<^verbatim>\<open>aria-hidden\<close> is one of the two literals and agrees with
  the class.
\<close>

lemma show_keeps_step:
  assumes "triggers p \<noteq> []" and "token_error (options_openClass p) = None"
    and "getAttribute s (popup p) ''aria-hidden'' = Some ''true'' \<and> \<not> has_open_class p s \<or>
         getAttribute s (popup p) ''aria-hidden'' = Some ''false'' \<and> has_open_class p s"
  shows "fst (Popup_show p s) = Inr () \<and>
         getAttribute (snd (Popup_show p s)) (popup p) ''aria-hidden'' = Some ''false'' \<and>
         has_open_class p (snd (Popup_show p s))"
proof (cases "getAttribute s (popup p) ''aria-hidden'' = Some ''false''")
  case True
  with assms(3) show ?thesis by (simp add: show_when_visible)
next
  case False
  from show_opens [OF assms(1,2) False] show ?thesis
    by (simp add: aria_hidden_after_show)
qed

lemma hide_keeps_step:
  assumes "triggers p \<noteq> []" and "token_error (options_openClass p) = None"
    and "getAttribute s (popup p) ''aria-hidden'' = Some ''true'' \<and> \<not> has_open_class p s \<or>
         getAttribute s (popup p) ''aria-hidden'' = Some ''false'' \<and> has_open_class p s"
  shows "fst (Popup_hide p s) = Inr () \<and>
         getAttribute (snd (Popup_hide p s)) (popup p) ''aria-hidden'' = Some ''true'' \<and>
         \<not> has_open_class p (snd (Popup_hide p s))"
proof (cases "getAttribute s (popup p) ''aria-hidden'' = Some ''true''")
  case True
  with assms(3) show ?thesis by (simp add: hide_when_hidden)
next
  case False
  from hide_closes [OF assms(1,2) False] show ?thesis
    by (simp add: aria_hidden_after_hide)
qed

lemma calls_keep_step:
  assumes "triggers p \<noteq> []" and "token_error (options_openClass p) = None"
  shows "getAttribute s (popup p) ''aria-hidden'' = Some ''true'' \<and> \<not> has_open_class p s \<or>
         getAttribute s (popup p) ''aria-hidden'' = Some ''false'' \<and> has_open_class p s \<Longrightarrow>
         getAttribute (calls p cs s) (popup p) ''aria-hidden'' = Some ''true'' \<and>
           \<not> has_open_class p (calls p cs s) \<or>
         getAttribute (calls p cs s) (popup p) ''aria-hidden'' = Some ''false'' \<and>
           has_open_class p (calls p cs s)"
proof (induction cs arbitrary: s)
  case Nil
  then show ?case by simp
next
  case (Cons c cs)
  have "getAttribute (snd (call_method p c s)) (popup p) ''aria-hidden'' = Some ''true'' \<and>
          \<not> has_open_class p (snd (call_method p c s)) \<or>
        getAttribute (snd (call_method p c s)) (popup p) ''aria-hidden'' = Some ''false'' \<and>
          has_open_class p (snd (call_method p c s))"
    using show_keeps_step [OF assms Cons.prems] hide_keeps_step [OF assms Cons.prems]
    by (cases c) (auto simp: Popup_toggle_def)
  from Cons.IH [OF this] show ?case by simp
qed

text \<open>
  Claim C4, as amended. For every Popup constructed with at least one trigger and an open
  class that is a valid class token (not empty, no white space), on a display element that
  did not carry the open class before construction: after every sequence of
  \<^verbatim>\<open>show\<close>/\<^verbatim>\<open>hide\<close>/\<^verbatim>\<open>toggle\<close> calls on it, \<^verbatim>\<open>aria-hidden\<close> is \<^verbatim>\<open>"true"\<close> exactly when the open
  class is absent, and a \<^verbatim>\<open>toggle()\<close> then returns and flips both.
\<close>

theorem toggle_in_lock_step:
  assumes "Popup_constructor v c s0 = (Inr p, s1)"
    and "triggers p \<noteq> []"
    and "token_error (options_openClass p) = None"
    and "\<not> has_open_class p s0"
  shows "aria_hidden p (calls p cs s1) = (\<not> has_open_class p (calls p cs s1)) \<and>
         fst (Popup_toggle p (calls p cs s1)) = Inr () \<and>
         aria_hidden p (snd (Popup_toggle p (calls p cs s1))) = (\<not> aria_hidden p (calls p cs s1)) \<and>
         has_open_class p (snd (Popup_toggle p (calls p cs s1))) =
           (\<not> has_open_class p (calls p cs s1))"
proof -
  from constructor_result [OF assms(1)] assms(4)
  have "getAttribute s1 (popup p) ''aria-hidden'' = Some ''true'' \<and> \<not> has_open_class p s1 \<or>
        getAttribute s1 (popup p) ''aria-hidden'' = Some ''false'' \<and> has_open_class p s1"
    by (simp add: has_open_class_def classList_contains_def)
  from calls_keep_step [OF assms(2,3) this, of cs]
  have inv: "getAttribute (calls p cs s1) (popup p) ''aria-hidden'' = Some ''true'' \<and>
           \<not> has_open_class p (calls p cs s1) \<or>
         getAttribute (calls p cs s1) (popup p) ''aria-hidden'' = Some ''false'' \<and>
           has_open_class p (calls p cs s1)" .
  show ?thesis
    using inv show_keeps_step [OF assms(2,3) inv] hide_keeps_step [OF assms(2,3) inv]
    by (auto simp: Popup_toggle_def aria_hidden_def)
qed

lemma closed_page_constructed:
  "Popup_constructor V020 (popup_config (JStr ''tip1'') [1]) closed_page =
     (Inr (tip_popup [1]),
      snd (Popup_constructor V020 (popup_config (JStr ''tip1'') [1]) closed_page))"
  by (simp add: prod_eq_iff closed_page_def dom_defs popup_defs example_defs)

text \<open>
  Witness for C4 as amended: version 0.2.0 on \<^verbatim>\<open><div id="tip1">\<close> with one trigger, after
  the calls \<^verbatim>\<open>toggle(); show(); hide(); toggle()\<close>.
\<close>

theorem toggle_in_lock_step_witness:
  "aria_hidden (tip_popup [1])
     (calls (tip_popup [1]) [Toggle, Show, Hide, Toggle]
        (snd (Popup_constructor V020 (popup_config (JStr ''tip1'') [1]) closed_page))) =
   (\<not> has_open_class (tip_popup [1])
     (calls (tip_popup [1]) [Toggle, Show, Hide, Toggle]
        (snd (Popup_constructor V020 (popup_config (JStr ''tip1'') [1]) closed_page))))"
proof -
  have "\<not> has_open_class (tip_popup [1]) closed_page"
    by (simp add: has_open_class_def closed_page_def dom_defs example_defs)
  from toggle_in_lock_step [OF closed_page_constructed _ _ this, of "[Toggle, Show, Hide, Toggle]"]
  show ?thesis by (simp add: token_error_def ascii_whitespace_def tip_popup_def)
qed

text \<open>
  Counterexample to C4 as stated: right after \<^verbatim>\<open>new Popup({ popup: 'tip1', triggers: [t] })\<close>
  on \<^verbatim>\<open><div id="tip1" class="is-open">\<close> the element has \<^verbatim>\<open>aria-hidden="true"\<close> and the open
  class at once, and the first \<^verbatim>\<open>toggle()\<close> flips the attribute while the class stays.
\<close>

theorem toggle_out_of_step:
  "fst (Popup_constructor V020 (popup_config (JStr ''tip1'') [1]) open_page) =
     Inr (tip_popup [1]) \<and>
   aria_hidden (tip_popup [1])
     (snd (Popup_constructor V020 (popup_config (JStr ''tip1'') [1]) open_page)) \<and>
   has_open_class (tip_popup [1])
     (snd (Popup_constructor V020 (popup_config (JStr ''tip1'') [1]) open_page)) \<and>
   \<not> aria_hidden (tip_popup [1])
     (snd (Popup_toggle (tip_popup [1])
        (snd (Popup_constructor V020 (popup_config (JStr ''tip1'') [1]) open_page)))) \<and>
   has_open_class (tip_popup [1])
     (snd (Popup_toggle (tip_popup [1])
        (snd (Popup_constructor V020 (popup_config (JStr ''tip1'') [1]) open_page))))"
  by (simp add: aria_hidden_def has_open_class_def open_page_def dom_defs popup_defs example_defs)

subsection \<open>A Popup without triggers\<close>

lemma show_without_trigger:
  assumes "triggers p = []" and "getAttribute s (popup p) ''aria-hidden'' \<noteq> Some ''false''"
  shows "Popup_show p s = (Inl TypeError, setAttribute (popup p) ''aria-hidden'' ''false'' s)"
  using assms by (simp add: Popup_show_def)

lemma hide_without_trigger:
  assumes "triggers p = []" and "getAttribute s (popup p) ''aria-hidden'' \<noteq> Some ''true''"
  shows "Popup_hide p s = (Inl TypeError, setAttribute (popup p) ''aria-hidden'' ''true'' s)"
  using assms by (simp add: Popup_hide_def)

text \<open>
  An open class that is no valid token makes \<^verbatim>\<open>classList.add\<close> throw, after both
  attributes are written.
\<close>

lemma show_invalid_class:
  assumes "triggers p \<noteq> []" and "token_error (options_openClass p) = Some err"
    and "getAttribute s (popup p) ''aria-hidden'' \<noteq> Some ''false''"
  shows "fst (Popup_show p s) = Inl err \<and>
         getAttribute (snd (Popup_show p s)) (popup p) ''aria-hidden'' = Some ''false''"
  using assms
  by (cases "triggers p") (simp_all add: Popup_show_def Let_def classList_add_def)

text \<open>With a trigger and a valid class token the three methods return.\<close>

lemma methods_return:
  assumes "triggers p \<noteq> []" and "token_error (options_openClass p) = None"
  shows "fst (Popup_show p s) = Inr () \<and> fst (Popup_hide p s) = Inr () \<and>
         fst (Popup_toggle p s) = Inr ()"
proof -
  have s: "fst (Popup_show p s) = Inr ()"
    using show_opens [OF assms, of s] by (cases "getAttribute s (popup p) ''aria-hidden'' = Some ''false''")
      (simp_all add: show_when_visible)
  have h: "fst (Popup_hide p s) = Inr ()"
    using hide_closes [OF assms, of s] by (cases "getAttribute s (popup p) ''aria-hidden'' = Some ''true''")
      (simp_all add: hide_when_hidden)
  from s h show ?thesis by (simp add: Popup_toggle_def)
qed

text \<open>
  Claim C6 at its failing input: \<^verbatim>\<open>new Popup({ popup: el })\<close> with the explicit display
  element \<^verbatim>\<open><div id="tip1">\<close> and no trigger is constructed in every version; the first
  \<^verbatim>\<open>show()\<close> on it, and likewise the first \<^verbatim>\<open>toggle()\<close>, throws a \<^verbatim>\<open>TypeError\<close> at
  \<^verbatim>\<open>this.triggers[0].setAttribute\<close>, and leaves \<^verbatim>\<open>aria-hidden="false"\<close> without the open class.
\<close>

theorem show_without_trigger_throws:
  "fst (Popup_constructor V020 (popup_config (JElem 0) []) closed_page) =
     Inr (tip_popup []) \<and>
   fst (Popup_constructor V011 (popup_config (JElem 0) []) closed_page) =
     Inr (tip_popup []) \<and>
   fst (Popup_constructor V010 (popup_config (JElem 0) []) closed_page) =
     Inr (tip_popup []) \<and>
   fst (Popup_show (tip_popup [])
        (snd (Popup_constructor V020 (popup_config (JElem 0) []) closed_page))) = Inl TypeError \<and>
   fst (Popup_toggle (tip_popup [])
        (snd (Popup_constructor V020 (popup_config (JElem 0) []) closed_page))) = Inl TypeError \<and>
   getAttribute (snd (Popup_show (tip_popup [])
        (snd (Popup_constructor V020 (popup_config (JElem 0) []) closed_page)))) 0 ''aria-hidden''
     = Some ''false'' \<and>
   \<not> classList_contains (snd (Popup_show (tip_popup [])
        (snd (Popup_constructor V020 (popup_config (JElem 0) []) closed_page)))) 0 ''is-open''"
  by (simp add: closed_page_def dom_defs popup_defs example_defs)

lemmas registry_defs = getTargetId_def generateId_def popups_get_def property_key_def
  Object_prototype_keys_def popupConfigs_of_def targetId_of_def already_initialized_def
  initPopup_def not_initialized_def show_ref_def hide_ref_def toggle_ref_def

subsection \<open>Identifier resolution\<close>

text \<open>
  Claim C2, as amended. Let the configured identifier attribute be a lower-case name built
  like an identifier, other than \<^verbatim>\<open>class\<close> (the default \<^verbatim>\<open>data-micropop-id\<close> is one). Then
  \<^verbatim>\<open>_getTargetId(ref)\<close> returns \<open>ref\<close> itself when it is a string; when it is an
  \<^verbatim>\<open>HTMLElement\<close>, the value of the identifier attribute if that is present and not empty,
  else the native id if not empty, else the fresh identifier \<^verbatim>\<open>micropop-<n>\<close> with \<open>n\<close> the
  counter after its increment, which it also writes onto the element's identifier
  attribute; and \<^verbatim>\<open>null\<close> for every other input, an element that is no \<^verbatim>\<open>HTMLElement\<close>
  included. Only the last \<^verbatim>\<open>HTMLElement\<close> case changes the state.
\<close>

theorem getTargetId_resolution:
  assumes "attribute_option (identifierAttribute (options s))"
  shows
  "getTargetId (JStr x) s = (Some x, s) \<and>
   (isHTMLElement (elems s e) \<and>
    getAttribute s e (identifierAttribute (options s)) = Some a \<and> a \<noteq> [] \<longrightarrow>
      getTargetId (JElem e) s = (Some a, s)) \<and>
   (isHTMLElement (elems s e) \<and>
    getAttribute s e (identifierAttribute (options s)) \<in> {None, Some []} \<and> element_id s e \<noteq> [] \<longrightarrow>
      getTargetId (JElem e) s = (Some (element_id s e), s)) \<and>
   (isHTMLElement (elems s e) \<and>
    getAttribute s e (identifierAttribute (options s)) \<in> {None, Some []} \<and> element_id s e = [] \<longrightarrow>
      getTargetId (JElem e) s =
        (Some (''micropop-'' @ string_of_nat (Suc (generatedIdCount s))),
         setAttribute e (identifierAttribute (options s))
           (''micropop-'' @ string_of_nat (Suc (generatedIdCount s)))
           (s\<lparr>generatedIdCount := Suc (generatedIdCount s)\<rparr>)) \<and>
      generatedIdCount (snd (getTargetId (JElem e) s)) = Suc (generatedIdCount s) \<and>
      getAttribute (snd (getTargetId (JElem e) s)) e (identifierAttribute (options s)) =
        fst (getTargetId (JElem e) s)) \<and>
   (\<not> isHTMLElement (elems s e) \<longrightarrow> getTargetId (JElem e) s = (None, s)) \<and>
   ((\<forall>x. r \<noteq> JStr x) \<and> (\<forall>e. r \<noteq> JElem e) \<longrightarrow> getTargetId r s = (None, s))"
  by (cases r) (auto simp: getTargetId_def generateId_def setAttribute_def getAttribute_def)

lemma default_identifier_option:
  "attribute_option ''data-micropop-id'' \<and> attribute_option ''data-micropop-trigger'' \<and>
   simple_name ''data-micropop''"
  by (simp add: attribute_option_def simple_name_def name_start_def name_char_def)

text \<open>
  Witness for C2 as amended, on the document \<^verbatim>\<open><div id="tip1">\<close>, \<^verbatim>\<open><button>\<close>,
  \<^verbatim>\<open><svg id="icon">\<close> with the default options: a string, an HTML element with a native id,
  an HTML element without any (it gets \<^verbatim>\<open>micropop-1\<close>), an SVG element, and \<^verbatim>\<open>null\<close>.
\<close>

theorem getTargetId_resolution_witness:
  "attribute_option (identifierAttribute (options svg_page)) \<and>
   getTargetId (JStr ''tip1'') svg_page = (Some ''tip1'', svg_page) \<and>
   fst (getTargetId (JElem 0) svg_page) = Some ''tip1'' \<and>
   fst (getTargetId (JElem 1) svg_page) = Some ''micropop-1'' \<and>
   getAttribute (snd (getTargetId (JElem 1) svg_page)) 1 ''data-micropop-id'' = Some ''micropop-1'' \<and>
   getTargetId (JElem 2) svg_page = (None, svg_page) \<and>
   getTargetId JNull svg_page = (None, svg_page)"
proof -
  have o: "attribute_option (identifierAttribute (options svg_page))"
    using default_identifier_option by (simp add: svg_page_def page_def default_options_def)
  show ?thesis
    using o getTargetId_resolution [OF o, of "''tip1''" 0 "[]" JNull]
      getTargetId_resolution [OF o, of "''tip1''" 1 "[]" JNull]
      getTargetId_resolution [OF o, of "''tip1''" 2 "[]" JNull]
    by (simp add: svg_page_def dom_defs example_defs svg_element_with_def string_of_nat.simps)
qed

text \<open>
  Counterexample to C2 as stated: on the HTML element \<^verbatim>\<open><div data-micropop-id="" id="tip1">\<close>,
  with the default options, the identifier attribute is present (with the empty value),
  and the result is the native id \<^verbatim>\<open>tip1\<close>, not the value of the attribute.
\<close>

theorem getTargetId_empty_attribute:
  "isHTMLElement (elems empty_identifier_page 0) \<and>
   identifierAttribute (options empty_identifier_page) = ''data-micropop-id'' \<and>
   getAttribute empty_identifier_page 0 ''data-micropop-id'' = Some [] \<and>
   getTargetId (JElem 0) empty_identifier_page = (Some ''tip1'', empty_identifier_page)"
  by (simp add: empty_identifier_page_def getTargetId_def dom_defs example_defs)

text \<open>
  A second resolution of the same element gives the same identifier and changes nothing:
  the first has stamped it.
\<close>

lemma getTargetId_stable:
  assumes "attribute_option (identifierAttribute (options s))"
  shows "getTargetId (JElem e) (snd (getTargetId (JElem e) s)) =
     (fst (getTargetId (JElem e) s), snd (getTargetId (JElem e) s))"
  by (auto simp: getTargetId_def generateId_def setAttribute_def getAttribute_def element_id_def
      split: option.splits)

subsection \<open>Registry operations on an unregistered reference\<close>

lemma popups_get_Undefined:
  "popups s x = None \<Longrightarrow> x \<notin> set Object_prototype_keys \<Longrightarrow> popups_get s (Some x) = Undefined"
  by (simp add: popups_get_def property_key_def)

text \<open>
  For a string that is neither registered nor the name of an inherited property the three
  operations return, and all they do is warn (nothing at all in version 0.1.0).
\<close>

lemma unregistered_string:
  assumes "popups s x = None" and "x \<notin> set Object_prototype_keys"
  shows "show_ref v (JStr x) s = (Inr (), not_initialized v ''show'' s) \<and>
         hide_ref v (JStr x) s = (Inr (), not_initialized v ''hide'' s) \<and>
         toggle_ref v (JStr x) s = (Inr (), not_initialized v ''toggle'' s)"
  using popups_get_Undefined [OF assms]
  by (simp add: show_ref_def hide_ref_def toggle_ref_def getTargetId_def)

lemma not_initialized_frame:
  "elems (not_initialized v n s) = elems s \<and> doc (not_initialized v n s) = doc s \<and>
   popups (not_initialized v n s) = popups s \<and> options (not_initialized v n s) = options s \<and>
   generatedIdCount (not_initialized v n s) = generatedIdCount s \<and>
   allocated (not_initialized v n s) = allocated s"
  by (cases v) (simp_all add: not_initialized_def console_warn_def)

text \<open>
  Claim C8 at its failing input: no Popup is registered under \<^verbatim>\<open>toString\<close>, yet
  \<^verbatim>\<open>popups['toString']\<close> is the function inherited from \<^verbatim>\<open>Object.prototype\<close>, which is truthy
  and has no method \<^verbatim>\<open>show\<close>: \<^verbatim>\<open>MicroPop.show('toString')\<close> throws a \<^verbatim>\<open>TypeError\<close>, in every
  version, and so do \<^verbatim>\<open>hide\<close> and \<^verbatim>\<open>toggle\<close>.
\<close>

theorem inherited_key_throws:
  "popups closed_page ''toString'' = None \<and>
   fst (show_ref V010 (JStr ''toString'') closed_page) = Inl TypeError \<and>
   fst (show_ref V011 (JStr ''toString'') closed_page) = Inl TypeError \<and>
   fst (show_ref V020 (JStr ''toString'') closed_page) = Inl TypeError \<and>
   fst (hide_ref V020 (JStr ''toString'') closed_page) = Inl TypeError \<and>
   fst (toggle_ref V020 (JStr ''toString'') closed_page) = Inl TypeError"
  by (simp add: closed_page_def registry_defs example_defs)

subsection \<open>Registry operations on an element without identifier\<close>

lemma generated_not_inherited:
  "''micropop-'' @ x \<notin> set Object_prototype_keys"
  by (simp add: Object_prototype_keys_def)

text \<open>
  With an identifier option that is a simple name, an HTML element without identifier
  attribute and native id is stamped with the generated identifier; when nothing is registered under that identifier, this is the only change
  to the document.
\<close>

lemma unregistered_element:
  assumes "isHTMLElement (elems s e)"
    and "getAttribute s e (identifierAttribute (options s)) \<in> {None, Some []}"
    and "element_id s e = []"
    and "popups s (''micropop-'' @ string_of_nat (Suc (generatedIdCount s))) = None"
    and "attribute_option (identifierAttribute (options s))"
  shows "show_ref v (JElem e) s =
           (Inr (), not_initialized v ''show''
              (setAttribute e (identifierAttribute (options s))
                 (''micropop-'' @ string_of_nat (Suc (generatedIdCount s)))
                 (s\<lparr>generatedIdCount := Suc (generatedIdCount s)\<rparr>)))"
proof -
  let ?x = "''micropop-'' @ string_of_nat (Suc (generatedIdCount s))"
  let ?s1 = "setAttribute e (identifierAttribute (options s)) ?x
               (s\<lparr>generatedIdCount := Suc (generatedIdCount s)\<rparr>)"
  from assms(1,2,3) have g: "getTargetId (JElem e) s = (Some ?x, ?s1)"
    by (auto simp: getTargetId_def generateId_def)
  from assms(4) have "popups ?s1 ?x = None"
    by (simp add: setAttribute_def)
  from popups_get_Undefined [OF this generated_not_inherited]
  show ?thesis by (simp add: show_ref_def g)
qed

lemma clash_registered:
  "fst (initPopup V020 (popup_config (JStr ''micropop-1'') [1]) clash_page) =
     Inr (Instance (tip_popup [1]))"
  by (simp add: clash_page_def registry_defs dom_defs popup_defs example_defs)

text \<open>
  Claim C10 at its failing input. The popup \<^verbatim>\<open><div id="micropop-1">\<close> is registered under
  its id. Element 2 has neither identifier attribute nor native id and is neither the
  display element nor a trigger of that Popup. \<^verbatim>\<open>MicroPop.show(element2)\<close> stamps it with
  the generated identifier \<^verbatim>\<open>micropop-1\<close>, finds the Popup registered under that name and
  shows it: \<^verbatim>\<open>aria-hidden\<close> of element 0 goes from \<^verbatim>\<open>"true"\<close> to \<^verbatim>\<open>"false"\<close> and the open class
  is added.
\<close>

theorem generated_id_clash:
  "popups clash_state ''micropop-1'' = Some (tip_popup [1]) \<and>
   dom (popups clash_state) = {''micropop-1''} \<and>
   getAttribute clash_state 2 ''data-micropop-id'' = None \<and>
   element_id clash_state 2 = [] \<and>
   getAttribute clash_state 0 ''aria-hidden'' = Some ''true'' \<and>
   fst (show_ref V020 (JElem 2) clash_state) = Inr () \<and>
   getAttribute (snd (show_ref V020 (JElem 2) clash_state)) 2 ''data-micropop-id'' =
     Some ''micropop-1'' \<and>
   getAttribute (snd (show_ref V020 (JElem 2) clash_state)) 0 ''aria-hidden'' = Some ''false'' \<and>
   classList_contains (snd (show_ref V020 (JElem 2) clash_state)) 0 ''is-open''"
  by (simp add: clash_state_def clash_page_def registry_defs dom_defs popup_defs example_defs
      string_of_nat.simps)

subsection \<open>Initialising twice\<close>

lemma getTargetId_frame:
  "popups (snd (getTargetId r s)) = popups s \<and>
   allocated (snd (getTargetId r s)) = allocated s \<and>
   options (snd (getTargetId r s)) = options s \<and>
   doc (snd (getTargetId r s)) = doc s \<and>
   (\<forall>e. listeners (elems (snd (getTargetId r s)) e) = listeners (elems s e)) \<and>
   (\<forall>e. classList (elems (snd (getTargetId r s)) e) = classList (elems s e))"
  by (cases r)
     (auto simp: getTargetId_def generateId_def setAttribute_def split: option.splits)

lemma targetId_of_frame:
  "popups (snd (targetId_of c s)) = popups s \<and>
   allocated (snd (targetId_of c s)) = allocated s \<and>
   options (snd (targetId_of c s)) = options s \<and>
   doc (snd (targetId_of c s)) = doc s \<and>
   (\<forall>e. listeners (elems (snd (targetId_of c s)) e) = listeners (elems s e)) \<and>
   (\<forall>e. classList (elems (snd (targetId_of c s)) e) = classList (elems s e))"
  using getTargetId_frame [of "cfg_popup c" s]
  by (simp add: targetId_of_def split: option.splits)

lemma popups_get_cong:
  "popups s = popups s' \<Longrightarrow> popups_get s k = popups_get s' k"
  by (simp add: popups_get_def)

lemma setAttribute_frame [simp]:
  "popups (setAttribute e n v s) = popups s"
  "options (setAttribute e n v s) = options s"
  "doc (setAttribute e n v s) = doc s"
  "allocated (setAttribute e n v s) = allocated s"
  "generatedIdCount (setAttribute e n v s) = generatedIdCount s"
  by (simp_all add: setAttribute_def)

lemma addEventListener_frame [simp]:
  "popups (addEventListener e ty h s) = popups s"
  "options (addEventListener e ty h s) = options s"
  "doc (addEventListener e ty h s) = doc s"
  "allocated (addEventListener e ty h s) = allocated s"
  "generatedIdCount (addEventListener e ty h s) = generatedIdCount s"
  by (simp_all add: addEventListener_def)

lemma attach_listeners_popups [simp]:
  "popups (attach_listeners n e tcs t) = popups t"
  by (induction n e tcs t rule: attach_listeners.induct) simp_all

lemma attach_listeners_options [simp]:
  "options (attach_listeners n e tcs t) = options t"
  by (induction n e tcs t rule: attach_listeners.induct) simp_all

lemma attach_listeners_doc [simp]:
  "doc (attach_listeners n e tcs t) = doc t"
  by (induction n e tcs t rule: attach_listeners.induct) simp_all

lemma attach_listeners_allocated [simp]:
  "allocated (attach_listeners n e tcs t) = allocated t"
  by (induction n e tcs t rule: attach_listeners.induct) simp_all

lemma Popup_init_frame:
  "popups (snd (Popup_init v n x tcs t)) = popups t \<and>
   options (snd (Popup_init v n x tcs t)) = options t \<and>
   doc (snd (Popup_init v n x tcs t)) = doc t"
  by (cases x) (simp_all add: Popup_init_def Let_def)

lemma finish_construction_frame:
  "popups (snd (finish_construction v ts x oc role tcs t)) = popups t \<and>
   options (snd (finish_construction v ts x oc role tcs t)) = options t \<and>
   doc (snd (finish_construction v ts x oc role tcs t)) = doc t"
proof (cases "Popup_init v (allocated t) x tcs t")
  case (Pair res t1)
  with Popup_init_frame [of v "allocated t" x tcs t] show ?thesis
    by (cases res) (simp_all add: finish_construction_def)
qed

lemma constructor_frame:
  "popups (snd (Popup_constructor v c s)) = popups s \<and>
   options (snd (Popup_constructor v c s)) = options s \<and>
   doc (snd (Popup_constructor v c s)) = doc s"
proof (cases v)
  case V010
  then show ?thesis
    by (simp add: Popup_constructor_def Popup_constructor_V010_def Let_def
        finish_construction_frame split: triggers_arg.split)
next
  case V011
  then show ?thesis
    by (simp add: Popup_constructor_def Popup_constructor_V011_def Let_def
        finish_construction_frame split: triggers_arg.split)
next
  case V020
  show ?thesis
  proof (cases "if \<not> truthy (cfg_popup c) then derive_from_trigger c s
                else Inr (determine_popup s (cfg_popup c), None)")
    case (Inl err)
    with V020 show ?thesis
      by (simp add: Popup_constructor_def Popup_constructor_V020_def)
  next
    case (Inr pr)
    with V020 show ?thesis
      by (cases pr)
         (simp add: Popup_constructor_def Popup_constructor_V020_def finish_construction_frame)
  qed
qed

text \<open>
  In the versions after 0.1.0 what \<^verbatim>\<open>initPopup\<close> returns is what the registry then
  holds under the resolved identifier.
\<close>

lemma initPopup_registered:
  assumes "v \<noteq> V010" and "initPopup v c s = (Inr r, s')"
  shows "popups_get s' (fst (targetId_of (popupConfigs_of c s) s)) = r \<and> r \<noteq> Undefined"
proof -
  obtain k s1 where t: "targetId_of (popupConfigs_of c s) s = (k, s1)"
    by (cases "targetId_of (popupConfigs_of c s) s")
  show ?thesis
  proof (cases "popups_get s1 k")
    case Undefined
    obtain res s2 where c: "Popup_constructor v (popupConfigs_of c s) s1 = (res, s2)"
      by (cases "Popup_constructor v (popupConfigs_of c s) s1")
    show ?thesis
    proof (cases res)
      case (Inl err)
      with assms(2) t Undefined c show ?thesis
        by (simp add: initPopup_def)
    next
      case (Inr p)
      with assms(2) t Undefined c have "r = Instance p" and
        "s' = setAttribute (popup p) (identifierAttribute (options s2)) (property_key k)
                 (s2\<lparr>popups := (popups s2)(property_key k \<mapsto> p)\<rparr>)"
        by (simp_all add: initPopup_def)
      then show ?thesis
        by (simp add: t popups_get_def setAttribute_def)
    qed
  next
    case (Instance p)
    with assms t have "r = Instance p" and "popups s' = popups s1"
      by (auto simp: initPopup_def already_initialized_def console_warn_def
          split: if_splits)
    with Instance show ?thesis
      by (simp add: t popups_get_cong [of s' s1])
  next
    case (Inherited x)
    with assms t have "r = Inherited x" and "popups s' = popups s1"
      by (auto simp: initPopup_def already_initialized_def console_warn_def
          split: if_splits)
    with Inherited show ?thesis
      by (simp add: t popups_get_cong [of s' s1])
  qed
qed

text \<open>
  In the versions after 0.1.0, a call whose configuration resolves to an identifier whose
  registry entry is truthy returns that entry; it constructs no Popup, adds no listener,
  and leaves the registry as it is.
\<close>

lemma initPopup_found:
  assumes "v \<noteq> V010"
    and "popups_get s (fst (targetId_of (popupConfigs_of c s) s)) = r" and "r \<noteq> Undefined"
  shows "fst (initPopup v c s) = Inr r \<and>
         allocated (snd (initPopup v c s)) = allocated s \<and>
         popups (snd (initPopup v c s)) = popups s \<and>
         (\<forall>e. listeners (elems (snd (initPopup v c s)) e) = listeners (elems s e))"
proof -
  obtain k s1 where t: "targetId_of (popupConfigs_of c s) s = (k, s1)"
    by (cases "targetId_of (popupConfigs_of c s) s")
  from targetId_of_frame [of "popupConfigs_of c s" s] t
  have fr: "popups s1 = popups s" "allocated s1 = allocated s"
    "\<forall>e. listeners (elems s1 e) = listeners (elems s e)"
    by simp_all
  from assms(2) t fr(1) have g: "popups_get s1 k = r"
    by (simp add: popups_get_cong [of s1 s])
  from assms(1,3) g t fr show ?thesis
    by (cases r)
       (simp_all add: initPopup_def already_initialized_def console_warn_def)
qed

text \<open>
  Hence, in the versions after 0.1.0 and with an identifier option that is a simple name:
  after a first \<^verbatim>\<open>initPopup\<close> has returned, a second one that resolves to the same
  identifier returns the identical value, constructs nothing and attaches no listener.
\<close>

lemma initPopup_twice:
  assumes "v \<noteq> V010" and "initPopup v c1 s = (Inr r, s1)"
    and "fst (targetId_of (popupConfigs_of c2 s1) s1) = fst (targetId_of (popupConfigs_of c1 s) s)"
    and "attribute_option (identifierAttribute (options s))"
  shows "fst (initPopup v c2 s1) = Inr r \<and>
         allocated (snd (initPopup v c2 s1)) = allocated s1 \<and>
         popups (snd (initPopup v c2 s1)) = popups s1 \<and>
         (\<forall>e. listeners (elems (snd (initPopup v c2 s1)) e) = listeners (elems s1 e))"
proof -
  from initPopup_registered [OF assms(1,2)] assms(3)
  have "popups_get s1 (fst (targetId_of (popupConfigs_of c2 s1) s1)) = r" and "r \<noteq> Undefined"
    by simp_all
  from initPopup_found [OF assms(1) this] show ?thesis .
qed

lemma registered_first:
  "fst (initPopup v (popup_config (JStr ''tip1'') [1]) closed_page) = Inr (Instance (tip_popup [1]))"
  by (cases v)
     (simp_all add: closed_page_def registry_defs dom_defs popup_defs example_defs)

text \<open>
  Claim C1 at its failing input, \<^verbatim>\<open>src/index.js\<close> (version 0.1.0): the first
  \<^verbatim>\<open>initPopup({ popup: 'tip1', triggers: [t] })\<close> returns the new Popup and registers it under
  \<^verbatim>\<open>tip1\<close>; the second call with the same configuration takes \<^verbatim>\<open>if (popups[targetId]) return\<close>
  and returns \<^verbatim>\<open>undefined\<close>, not the registered instance. In versions 0.1.1 and 0.2.0 the
  second call returns the instance.
\<close>

theorem second_initPopup_returns_undefined:
  "fst (initPopup V010 (popup_config (JStr ''tip1'') [1]) closed_page) =
     Inr (Instance (tip_popup [1])) \<and>
   popups (registered_state V010) ''tip1'' = Some (tip_popup [1]) \<and>
   fst (initPopup V010 (popup_config (JStr ''tip1'') [1]) (registered_state V010)) = Inr Undefined \<and>
   fst (initPopup V011 (popup_config (JStr ''tip1'') [1]) (registered_state V011)) =
     Inr (Instance (tip_popup [1])) \<and>
   fst (initPopup V020 (popup_config (JStr ''tip1'') [1]) (registered_state V020)) =
     Inr (Instance (tip_popup [1]))"
  by (simp add: registered_state_def closed_page_def registry_defs dom_defs popup_defs example_defs)
subsection \<open>A display-element reference that does not resolve\<close>

text \<open>
  Version 0.1.1 checks \<^verbatim>\<open>this.popup\<close> and throws its own error; nothing has been written
  by then.
\<close>

lemma unresolved_reference_V011:
  assumes "cfg_popup c = JStr x" and "x \<noteq> []" and "getElementById s x = None"
  shows "Popup_constructor V011 c s =
           (Inl (Error ''[MicroPop] Could not find the popup element id:''), s)"
  using assms
  by (simp add: Popup_constructor_def Popup_constructor_V011_def determine_popup_def)

text \<open>
  Versions 0.1.0 and 0.2.0 have no such check: construction still fails before anything
  is written, with the \<^verbatim>\<open>TypeError\<close> of \<^verbatim>\<open>this.popup.setAttribute\<close> on \<^verbatim>\<open>null\<close> in \<^verbatim>\<open>_init\<close>.
\<close>

lemma unresolved_reference_unchecked:
  assumes "cfg_popup c = JStr x" and "x \<noteq> []" and "getElementById s x = None"
    and "v \<noteq> V011"
  shows "Popup_constructor v c s = (Inl TypeError, s)"
  using assms
  by (cases v)
     (simp_all add: Popup_constructor_def Popup_constructor_V010_def Popup_constructor_V020_def
        determine_popup_def finish_construction_def Popup_init_def split: triggers_arg.split)

text \<open>
  The empty string is a reference that resolves to nothing, yet it counts as no reference:
  version 0.2.0 then derives the display element from the trigger and constructs.
\<close>

lemma empty_reference_derives:
  "getElementById discovery_page [] = None \<and>
   fst (Popup_constructor V020 (popup_config (JStr []) [0]) discovery_page) =
     Inr \<lparr>ref = 0, triggers = [0], popup = 1, options_openClass = ''is-open'',
          options_role = None, triggerConfigs = [(0, Some ''tooltip'')]\<rparr>"
  by (simp add: discovery_page_def dom_defs popup_defs example_defs)

text \<open>
  Claim C7 at its failing input: \<^verbatim>\<open>new Popup({ popup: 'missing', triggers: [t] })\<close> on a
  document without an element of that id. In \<^verbatim>\<open>src/index.js\<close> (0.1.0) and in \<^verbatim>\<open>part_000\<close>
  (0.2.0) construction fails with the \<^verbatim>\<open>TypeError\<close> of a property read on \<^verbatim>\<open>null\<close>, not with
  the error for an element that was not found, which \<^verbatim>\<open>part_001\<close> (0.1.1) throws.
\<close>

theorem unresolved_reference_type_error:
  "getElementById closed_page ''missing'' = None \<and>
   Popup_constructor V010 (popup_config (JStr ''missing'') [1]) closed_page =
     (Inl TypeError, closed_page) \<and>
   Popup_constructor V020 (popup_config (JStr ''missing'') [1]) closed_page =
     (Inl TypeError, closed_page) \<and>
   Popup_constructor V011 (popup_config (JStr ''missing'') [1]) closed_page =
     (Inl (Error ''[MicroPop] Could not find the popup element id:''), closed_page)"
proof -
  have n: "getElementById closed_page ''missing'' = None"
    by (simp add: closed_page_def dom_defs example_defs)
  have c: "cfg_popup (popup_config (JStr ''missing'') [1]) = JStr ''missing''"
    by (simp add: popup_config_def)
  show ?thesis
    using n unresolved_reference_unchecked [OF c _ n, of V010]
      unresolved_reference_unchecked [OF c _ n, of V020] unresolved_reference_V011 [OF c _ n]
    by simp
qed

subsection \<open>Auto-discovery\<close>

lemma getAttribute_attach_listeners_other:
  "e' \<noteq> e \<or> n \<noteq> ''role'' \<Longrightarrow>
     getAttribute (attach_listeners r e tcs s) e' n = getAttribute s e' n"
  by (induction r e tcs s rule: attach_listeners.induct) auto

lemma getElementById_id:
  "getElementById s x = Some e \<Longrightarrow> getAttribute s e ''id'' = Some x \<and> x \<noteq> []"
  by (auto simp: getElementById_def find_Some_iff split: if_splits)

lemma getElementById_cong:
  assumes "doc s' = doc s" and "\<forall>e. getAttribute s' e ''id'' = getAttribute s e ''id''"
  shows "getElementById s' x = getElementById s x"
proof -
  from assms(2) have "(\<lambda>e. getAttribute s' e ''id'' = Some x) = (\<lambda>e. getAttribute s e ''id'' = Some x)"
    by simp
  with assms(1) show ?thesis by (simp add: getElementById_def)
qed

text \<open>
  One call of \<^verbatim>\<open>initPopup({ popup: x, triggers: trigger, role: role })\<close>, as \<^verbatim>\<open>init\<close> makes
  it, for an unregistered identifier \<open>x\<close> of an element \<open>e\<close> of the document: it constructs
  the Popup, registers it under \<open>x\<close>, and writes only attributes of \<open>e\<close>.
\<close>

lemma initPopup_discovers:
  assumes "popups s x = None" and "x \<notin> set Object_prototype_keys"
    and "getElementById s x = Some e" and "role \<noteq> []"
  shows "\<exists>s'. initPopup V020
                 \<lparr>cfg_popup = JStr x, cfg_triggers = TElem t, cfg_openClass = None,
                  cfg_role = Some role, cfg_targetPopupId = None\<rparr> s =
               (Inr (Instance
                  \<lparr>ref = allocated s, triggers = [t], popup = e,
                   options_openClass = openClass (options s), options_role = Some role,
                   triggerConfigs = [(t, Some role)]\<rparr>), s') \<and>
              popups s' = (popups s)(x \<mapsto>
                  \<lparr>ref = allocated s, triggers = [t], popup = e,
                   options_openClass = openClass (options s), options_role = Some role,
                   triggerConfigs = [(t, Some role)]\<rparr>) \<and>
              allocated s' = Suc (allocated s) \<and> options s' = options s \<and> doc s' = doc s \<and>
              (\<forall>e' n. e' \<noteq> e \<or> n \<notin> {''aria-haspopup'', ''aria-expanded'', ''aria-hidden'', ''role'',
                                        identifierAttribute (options s)} \<longrightarrow>
                 getAttribute s' e' n = getAttribute s e' n) \<and>
              (\<forall>e'. getAttribute s' e' ''id'' = getAttribute s e' ''id'')"
proof -
  let ?c = "\<lparr>cfg_popup = JStr x, cfg_triggers = TElem t, cfg_openClass = None,
             cfg_role = Some role, cfg_targetPopupId = None\<rparr>"
  let ?pc = "popupConfigs_of ?c s"
  let ?P = "\<lparr>ref = allocated s, triggers = [t], popup = e,
             options_openClass = openClass (options s), options_role = Some role,
             triggerConfigs = [(t, Some role)]\<rparr>"
  let ?s3 = "setAttribute e ''aria-hidden'' ''true''
               (setAttribute e ''aria-expanded'' ''false''
                 (setAttribute e ''aria-haspopup'' ''true'' s))"
  let ?s4 = "(attach_listeners (allocated s) e [(t, Some role)] ?s3)\<lparr>allocated := Suc (allocated s)\<rparr>"
  let ?s' = "setAttribute e (identifierAttribute (options s)) x (?s4\<lparr>popups := (popups s)(x \<mapsto> ?P)\<rparr>)"
  from getElementById_id [OF assms(3)] have idx: "getAttribute s e ''id'' = Some x" and x: "x \<noteq> []"
    by simp_all
  have t: "targetId_of ?pc s = (Some x, s)"
    by (simp add: targetId_of_def popupConfigs_of_def or_else_def getTargetId_def)
  have g: "popups_get s (Some x) = Undefined"
    by (rule popups_get_Undefined [OF assms(1,2)])
  have i: "Popup_init V020 (allocated s) (JElem e) [(t, Some role)] s =
             (Inr e, attach_listeners (allocated s) e [(t, Some role)] ?s3)"
    by (simp add: Popup_init_def)
  have c: "Popup_constructor V020 ?pc s = (Inr ?P, ?s4)"
    using x assms(3,4)
    by (simp add: Popup_constructor_def Popup_constructor_V020_def popupConfigs_of_def
        determine_popup_def this_triggers_def default_openClass_def or_else_def
        finish_construction_def i del: attach_listeners.simps)
  have p4: "popups ?s4 = popups s" and o4: "options ?s4 = options s"
    by simp_all
  have r: "initPopup V020 ?c s = (Inr (Instance ?P), ?s')"
    by (simp add: initPopup_def t g c p4 o4 property_key_def del: attach_listeners.simps)
  have a: "getAttribute ?s' e' n = getAttribute s e' n"
    if "e' \<noteq> e \<or> n \<notin> {''aria-haspopup'', ''aria-expanded'', ''aria-hidden'', ''role'',
                           identifierAttribute (options s)}" for e' n
  proof -
    from that have "e' \<noteq> e \<or> n \<noteq> ''role''" by auto
    from getAttribute_attach_listeners_other [OF this, of "allocated s" "[(t, Some role)]" ?s3]
    have "getAttribute (attach_listeners (allocated s) e [(t, Some role)] ?s3) e' n =
          getAttribute ?s3 e' n" .
    moreover have "getAttribute ?s' e' n =
                   getAttribute (attach_listeners (allocated s) e [(t, Some role)] ?s3) e' n"
      using that by (auto simp: getAttribute_def setAttribute_def simp del: attach_listeners.simps)
    moreover have "getAttribute ?s3 e' n = getAttribute s e' n"
      using that by auto
    ultimately show ?thesis by simp
  qed
  have d: "getAttribute ?s' e' ''id'' = getAttribute s e' ''id''" for e'
  proof (cases "e' = e \<and> identifierAttribute (options s) = ''id''")
    case True
    then have "getAttribute ?s' e' ''id'' = Some x"
      by (simp add: getAttribute_def setAttribute_def del: attach_listeners.simps)
    with True idx show ?thesis by simp
  next
    case False
    then have "e' \<noteq> e \<or> ''id'' \<notin> {''aria-haspopup'', ''aria-expanded'', ''aria-hidden'', ''role'',
                           identifierAttribute (options s)}"
      by auto
    from a [OF this] show ?thesis .
  qed
  have "popups ?s' = (popups s)(x \<mapsto> ?P)" "allocated ?s' = Suc (allocated s)"
    "options ?s' = options s" "doc ?s' = doc s"
    by simp_all
  with r a d show ?thesis by blast
qed
lemma dialog_attribute_not_written:
  "la @ ''-dialog'' \<notin> {''aria-haspopup'', ''aria-expanded'', ''aria-hidden'', ''role''}"
proof
  assume "la @ ''-dialog'' \<in> {''aria-haspopup'', ''aria-expanded'', ''aria-hidden'', ''role''}"
  then have "last (la @ ''-dialog'') \<in> last ` {''aria-haspopup'', ''aria-expanded'', ''aria-hidden'', ''role''}"
    by (rule imageI)
  then show False by simp
qed

lemma getAttribute_options [simp]:
  "getAttribute (s\<lparr>options := opts\<rparr>) e n = getAttribute s e n"
  by (simp add: getAttribute_def)

lemma getElementById_options [simp]:
  "getElementById (s\<lparr>options := opts\<rparr>) x = getElementById s x"
  by (simp add: getElementById_def)

lemma querySelectorAll_attr_options [simp]:
  "querySelectorAll_attr (s\<lparr>options := opts\<rparr>) n = querySelectorAll_attr s n"
  by (simp add: querySelectorAll_attr_def)

lemma split_tooltip_dialog:
  "split_space ''tooltip dialog'' = [''tooltip'', ''dialog'']"
  by simp

text \<open>
  Claim C9, as amended. Let the configured attribute names (trigger declaration,
  identifier, library namespace) be lower-case names built like identifiers, the first two
  other than \<^verbatim>\<open>class\<close>, as the defaults are, and let the identifier attribute differ from
  the dialog target attribute. Let a document hold a single trigger element \<open>t\<close> whose
  trigger-declaration attribute is \<^verbatim>\<open>"tooltip dialog"\<close> and whose two role-namespaced target
  attributes name two distinct identifiers \<open>a\<close> and \<open>b\<close>, both unregistered, neither the
  name of a property inherited from \<^verbatim>\<open>Object.prototype\<close>, and both the id of an element of
  the document (\<open>ea\<close>, \<open>eb\<close>). Then \<^verbatim>\<open>init\<close> returns, constructs exactly two Popup objects,
  and registers them under \<open>a\<close> and \<open>b\<close>: the first with display element \<open>ea\<close> and role
  \<^verbatim>\<open>tooltip\<close>, the second with display element \<open>eb\<close> and role \<^verbatim>\<open>dialog\<close>, both with the
  trigger list \<open>[t]\<close>.
\<close>

theorem init_two_roles:
  assumes o: "opts = assign_options (options s) c"
    and nt: "attribute_option (openTrigger opts)"
    and ni: "attribute_option (identifierAttribute opts)"
    and nl: "simple_name (libraryAttribute opts)"
    and q: "querySelectorAll_attr s (openTrigger opts) = [t]"
    and tr: "getAttribute s t (openTrigger opts) = Some ''tooltip dialog''"
    and ta: "getAttribute s t (libraryAttribute opts @ ''-tooltip'') = Some a"
    and tb: "getAttribute s t (libraryAttribute opts @ ''-dialog'') = Some b"
    and ab: "a \<noteq> b"
    and ua: "popups s a = None" and ub: "popups s b = None"
    and ka: "a \<notin> set Object_prototype_keys" and kb: "b \<notin> set Object_prototype_keys"
    and ea: "getElementById s a = Some ea" and eb: "getElementById s b = Some eb"
    and ia: "identifierAttribute opts \<noteq> libraryAttribute opts @ ''-dialog''"
  shows "fst (init c s) = Inr () \<and>
         allocated (snd (init c s)) = Suc (Suc (allocated s)) \<and>
         popups (snd (init c s)) =
           (popups s)
             (a \<mapsto> \<lparr>ref = allocated s, triggers = [t], popup = ea,
                    options_openClass = openClass opts, options_role = Some ''tooltip'',
                    triggerConfigs = [(t, Some ''tooltip'')]\<rparr>,
              b \<mapsto> \<lparr>ref = Suc (allocated s), triggers = [t], popup = eb,
                    options_openClass = openClass opts, options_role = Some ''dialog'',
                    triggerConfigs = [(t, Some ''dialog'')]\<rparr>)"
proof -
  let ?s1 = "s\<lparr>options := opts\<rparr>"
  let ?P1 = "\<lparr>ref = allocated s, triggers = [t], popup = ea,
              options_openClass = openClass opts, options_role = Some ''tooltip'',
              triggerConfigs = [(t, Some ''tooltip'')]\<rparr>"
  let ?P2 = "\<lparr>ref = Suc (allocated s), triggers = [t], popup = eb,
              options_openClass = openClass opts, options_role = Some ''dialog'',
              triggerConfigs = [(t, Some ''dialog'')]\<rparr>"
  let ?cfg = "\<lambda>x role. \<lparr>cfg_popup = JStr x, cfg_triggers = TElem t, cfg_openClass = None,
                          cfg_role = Some role, cfg_targetPopupId = None\<rparr>"
  from getElementById_id [OF ea] getElementById_id [OF eb] have ne: "a \<noteq> []" "b \<noteq> []"
    by simp_all
  have "\<exists>s2. initPopup V020 (?cfg a ''tooltip'') ?s1 = (Inr (Instance ?P1), s2) \<and>
          popups s2 = (popups ?s1)(a \<mapsto> ?P1) \<and>
          allocated s2 = Suc (allocated ?s1) \<and> options s2 = options ?s1 \<and> doc s2 = doc ?s1 \<and>
          (\<forall>e' n. e' \<noteq> ea \<or> n \<notin> {''aria-haspopup'', ''aria-expanded'', ''aria-hidden'', ''role'',
                                    identifierAttribute (options ?s1)} \<longrightarrow>
                 getAttribute s2 e' n = getAttribute ?s1 e' n) \<and>
          (\<forall>e'. getAttribute s2 e' ''id'' = getAttribute ?s1 e' ''id'')"
    using initPopup_discovers [of ?s1 a ea "''tooltip''" t] ua ka ea by simp
  then obtain s2 where
    r1: "initPopup V020 (?cfg a ''tooltip'') ?s1 = (Inr (Instance ?P1), s2)" and
    p2: "popups s2 = (popups s)(a \<mapsto> ?P1)" and
    a2: "allocated s2 = Suc (allocated s)" and
    o2: "options s2 = opts" and
    d2: "doc s2 = doc s" and
    f2: "\<And>e' n. e' \<noteq> ea \<or> n \<notin> {''aria-haspopup'', ''aria-expanded'', ''aria-hidden'', ''role'',
                                    identifierAttribute opts} \<Longrightarrow>
                 getAttribute s2 e' n = getAttribute s e' n" and
    i2: "\<And>e'. getAttribute s2 e' ''id'' = getAttribute s e' ''id''"
    by auto
  have tb2: "getAttribute s2 t (libraryAttribute opts @ ''-dialog'') = Some b"
  proof -
    from dialog_attribute_not_written [of "libraryAttribute opts"] ia
    have "libraryAttribute opts @ ''-dialog'' \<notin>
            {''aria-haspopup'', ''aria-expanded'', ''aria-hidden'', ''role'', identifierAttribute opts}"
      by auto
    then have "getAttribute s2 t (libraryAttribute opts @ ''-dialog'') =
               getAttribute s t (libraryAttribute opts @ ''-dialog'')"
      by (intro f2) simp
    with tb show ?thesis by simp
  qed
  have eb2: "getElementById s2 b = Some eb"
    using getElementById_cong [of s2 s b] d2 i2 eb by simp
  have ub2: "popups s2 b = None"
    using ub ab by (simp add: p2)
  have "\<exists>s3. initPopup V020 (?cfg b ''dialog'') s2 =
            (Inr (Instance \<lparr>ref = allocated s2, triggers = [t], popup = eb,
                    options_openClass = openClass (options s2), options_role = Some ''dialog'',
                    triggerConfigs = [(t, Some ''dialog'')]\<rparr>), s3) \<and>
          popups s3 = (popups s2)(b \<mapsto> \<lparr>ref = allocated s2, triggers = [t], popup = eb,
                    options_openClass = openClass (options s2), options_role = Some ''dialog'',
                    triggerConfigs = [(t, Some ''dialog'')]\<rparr>) \<and>
          allocated s3 = Suc (allocated s2)"
    using initPopup_discovers [of s2 b eb "''dialog''" t] ub2 kb eb2 by auto
  then obtain s3 where
    r2: "initPopup V020 (?cfg b ''dialog'') s2 = (Inr (Instance ?P2), s3)" and
    p3: "popups s3 = (popups s)(a \<mapsto> ?P1, b \<mapsto> ?P2)" and
    a3: "allocated s3 = Suc (Suc (allocated s))"
    by (auto simp: a2 o2 p2)
  have roles2: "init_roles t [''dialog''] s2 = (Inr (), s3)"
    using tb2 ne(2) by (simp add: o2 or_else_def r2)
  have roles1: "init_roles t [''tooltip'', ''dialog''] ?s1 = (Inr (), s3)"
    using ta ne(1) roles2 by (simp add: or_else_def r1 del: init_roles.simps(2)
        add: init_roles.simps(2) [of t "''tooltip''" "[''dialog'']" ?s1])
  have "init_triggers [t] ?s1 = (Inr (), s3)"
    using tr roles1 by (simp add: split_tooltip_dialog del: split_space.simps)
  then have "init c s = (Inr (), s3)"
    using q by (simp add: init_def Let_def o [symmetric])
  with p3 a3 show ?thesis by simp
qed

lemma discovery_page_init:
  "assign_options (options discovery_page) no_config = default_options \<and>
   querySelectorAll_attr discovery_page ''data-micropop-trigger'' = [0] \<and>
   getAttribute discovery_page 0 ''data-micropop-trigger'' = Some ''tooltip dialog'' \<and>
   getAttribute discovery_page 0 ''data-micropop-tooltip'' = Some ''tip1'' \<and>
   getAttribute discovery_page 0 ''data-micropop-dialog'' = Some ''dlg1'' \<and>
   popups discovery_page = Map.empty \<and> allocated discovery_page = 0 \<and>
   getElementById discovery_page ''tip1'' = Some 1 \<and>
   getElementById discovery_page ''dlg1'' = Some 2"
  by (simp add: discovery_page_def dom_defs example_defs assign_options_def no_config_def)

text \<open>
  Witness for C9 as amended: the trigger
  \<^verbatim>\<open><button data-micropop-trigger="tooltip dialog" data-micropop-tooltip="tip1" data-micropop-dialog="dlg1">\<close>
  with \<^verbatim>\<open><div id="tip1">\<close> and \<^verbatim>\<open><div id="dlg1">\<close>, default options, empty registry.
\<close>

theorem init_two_roles_witness:
  "fst (init no_config discovery_page) = Inr () \<and>
   allocated (snd (init no_config discovery_page)) = 2 \<and>
   popups (snd (init no_config discovery_page)) =
     [''tip1'' \<mapsto> \<lparr>ref = 0, triggers = [0], popup = 1, options_openClass = ''is-open'',
                   options_role = Some ''tooltip'', triggerConfigs = [(0, Some ''tooltip'')]\<rparr>,
      ''dlg1'' \<mapsto> \<lparr>ref = 1, triggers = [0], popup = 2, options_openClass = ''is-open'',
                   options_role = Some ''dialog'', triggerConfigs = [(0, Some ''dialog'')]\<rparr>]"
  using init_two_roles [of default_options discovery_page no_config 0 "''tip1''" "''dlg1''" 1 2]
    discovery_page_init default_identifier_option
  by (simp add: default_options_def Object_prototype_keys_def)

text \<open>
  Counterexample to C9 as stated: the same trigger, with the default options, in a
  document without the elements \<^verbatim>\<open>tip1\<close> and \<^verbatim>\<open>dlg1\<close>. The trigger names two distinct
  unregistered identifiers, \<^verbatim>\<open>init\<close> throws, and no Popup is constructed or registered.
\<close>

theorem init_without_targets:
  "querySelectorAll_attr trigger_only_page ''data-micropop-trigger'' = [0] \<and>
   getAttribute trigger_only_page 0 ''data-micropop-trigger'' = Some ''tooltip dialog'' \<and>
   getAttribute trigger_only_page 0 ''data-micropop-tooltip'' = Some ''tip1'' \<and>
   getAttribute trigger_only_page 0 ''data-micropop-dialog'' = Some ''dlg1'' \<and>
   popups trigger_only_page = Map.empty \<and>
   fst (init no_config trigger_only_page) = Inl TypeError \<and>
   allocated (snd (init no_config trigger_only_page)) = 0 \<and>
   popups (snd (init no_config trigger_only_page)) = Map.empty"
  by (simp add: trigger_only_page_def init_def assign_options_def no_config_def
      registry_defs dom_defs popup_defs example_defs)

end
